theory Spec2Isabelle
  imports Main "HOL-Library.Word"
begin

unbundle bit_operations_syntax

section \<open>Library functions used by the service\<close>

subsection \<open>path/filepath (Unix): Join and Clean\<close>

text \<open>
  \<^verbatim>\<open>generateObjectKey\<close> joins path and name with \<^verbatim>\<open>filepath.Join\<close> of the Go standard
  library. On Unix the separator is \<^verbatim>\<open>/\<close>, \<^verbatim>\<open>Join\<close> drops leading empty elements, joins the
  rest with the separator and returns \<^verbatim>\<open>Clean\<close> of the result. Go strings are byte
  sequences, as \<^typ>\<open>string\<close> is.
\<close>

fun strings_Join :: "string list \<Rightarrow> string \<Rightarrow> string" where
  "strings_Join [] sep = []"
| "strings_Join [e] sep = e"
| "strings_Join (e # es) sep = e @ sep @ strings_Join es sep"

text \<open>\<^verbatim>\<open>r+k == n || path[r+k] == '/'\<close>, on the rest of the path from \<^verbatim>\<open>r+k\<close>.\<close>

fun elem_end :: "string \<Rightarrow> bool" where
  "elem_end [] = True"
| "elem_end (c # cs) = (c = CHR ''/'')"

text \<open>
  The backtracking of a \<^verbatim>\<open>..\<close> element, after \<^verbatim>\<open>out.w--\<close>:
  \<^verbatim>\<open>for out.w > dotdot && out.index(out.w) != '/' { out.w-- }\<close>.
\<close>

fun backtrack :: "string \<Rightarrow> nat \<Rightarrow> nat \<Rightarrow> nat" where
  "backtrack out dotdot w =
     (if w > dotdot \<and> out ! w \<noteq> CHR ''/'' then backtrack out dotdot (w - 1) else w)"

declare backtrack.simps [simp del]

text \<open>
  The main loop of \<^verbatim>\<open>Clean\<close>. The second argument is the unread rest of the path
  (\<^verbatim>\<open>path[r:]\<close>), \<open>out\<close> is the written part of the buffer (\<^verbatim>\<open>out.w\<close> is its length).
\<close>

function clean_loop :: "bool \<Rightarrow> string \<Rightarrow> string \<Rightarrow> nat \<Rightarrow> string" where
  "clean_loop rooted [] out dotdot = out"
| "clean_loop rooted (c # rest) out dotdot =
     (if c = CHR ''/'' then clean_loop rooted rest out dotdot
      else if c = CHR ''.'' \<and> elem_end rest then clean_loop rooted rest out dotdot
      else if c = CHR ''.'' \<and> rest \<noteq> [] \<and> hd rest = CHR ''.'' \<and> elem_end (tl rest) then
        (if length out > dotdot then
           clean_loop rooted (tl rest) (take (backtrack out dotdot (length out - 1)) out) dotdot
         else if \<not> rooted then
           clean_loop rooted (tl rest) ((if length out > 0 then out @ ''/'' else out) @ ''..'')
             (length ((if length out > 0 then out @ ''/'' else out) @ ''..''))
         else clean_loop rooted (tl rest) out dotdot)
      else
        clean_loop rooted (dropWhile (\<lambda>x. x \<noteq> CHR ''/'') (c # rest))
          ((if rooted \<and> length out \<noteq> 1 \<or> \<not> rooted \<and> length out \<noteq> 0 then out @ ''/'' else out)
             @ takeWhile (\<lambda>x. x \<noteq> CHR ''/'') (c # rest))
          dotdot)"
  by pat_completeness auto
termination
proof (relation "measure (\<lambda>(rooted, path, out, dotdot). length path)")
qed (auto simp: le_imp_less_Suc length_dropWhile_le)

definition Clean :: "string \<Rightarrow> string" where
  "Clean path =
     (if path = [] then ''.''
      else
        let rooted = (hd path = CHR ''/'');
            out = (if rooted then clean_loop True (tl path) ''/'' 1
                   else clean_loop False path [] 0)
        in if out = [] then ''.'' else out)"

fun filepath_Join :: "string list \<Rightarrow> string" where
  "filepath_Join [] = []"
| "filepath_Join (e # es) =
     (if e \<noteq> [] then Clean (strings_Join (e # es) ''/'') else filepath_Join es)"

subsection \<open>github.com/google/uuid: New and String\<close>

text \<open>
  A \<^verbatim>\<open>UUID\<close> is an array of 16 bytes. \<^verbatim>\<open>uuid.New\<close> reads 16 bytes from the random source
  and sets the version and variant bits; the bytes read are an input of the model.
  \<^verbatim>\<open>String\<close> writes the form \<^verbatim>\<open>xxxxxxxx-xxxx-xxxx-xxxx-xxxxxxxxxxxx\<close> in lower-case hex.
\<close>

type_synonym UUID = "8 word list"

definition hextable :: string where
  "hextable = ''0123456789abcdef''"

fun hex_Encode :: "8 word list \<Rightarrow> string" where
  "hex_Encode [] = []"
| "hex_Encode (v # vs) =
     hextable ! unat (drop_bit 4 v) # hextable ! unat (v AND 0x0f) # hex_Encode vs"

definition UUID_String :: "UUID \<Rightarrow> string" where
  "UUID_String uuid =
     hex_Encode (take 4 uuid) @ ''-'' @
     hex_Encode (take 2 (drop 4 uuid)) @ ''-'' @
     hex_Encode (take 2 (drop 6 uuid)) @ ''-'' @
     hex_Encode (take 2 (drop 8 uuid)) @ ''-'' @
     hex_Encode (drop 10 uuid)"

definition uuid_New :: "8 word list \<Rightarrow> UUID" where
  "uuid_New rnd =
     (let uuid = rnd;
          uuid = uuid[6 := (uuid ! 6 AND 0x0f) OR 0x40];
          uuid = uuid[8 := (uuid ! 8 AND 0x3f) OR 0x80]
      in uuid)"

subsection \<open>fmt.Errorf and errors\<close>

text \<open>
  An error is its message and, when it was built with the verb \<^verbatim>\<open>%w\<close>, the error it
  wraps. \<^verbatim>\<open>%s\<close> prints a string as it is and \<^verbatim>\<open>%d\<close> prints an integer in decimal.
\<close>

datatype error = errorString string | wrapError string error

fun Error :: "error \<Rightarrow> string" where
  "Error (errorString s) = s"
| "Error (wrapError msg err) = msg"

definition Errorf_w :: "string \<Rightarrow> error \<Rightarrow> error" where
  "Errorf_w prefix err = wrapError (prefix @ Error err) err"

fun digits :: "nat \<Rightarrow> string" where
  "digits n =
     (if n < 10 then [''0123456789'' ! n]
      else digits (n div 10) @ [''0123456789'' ! (n mod 10)])"

declare digits.simps [simp del]

definition fmt_d :: "int \<Rightarrow> string" where
  "fmt_d i = (if i < 0 then ''-'' @ digits (nat (- i)) else digits (nat i))"

section \<open>The storage interface\<close>

text \<open>
  \<^verbatim>\<open>storage.Storage\<close> is an interface; a backend is a record of its methods, each a
  function on the backend's state \<open>'st\<close>. A Go result \<^verbatim>\<open>(v, err)\<close> is \<open>Inl err\<close> when
  \<^verbatim>\<open>err != nil\<close> and \<open>Inr v\<close> otherwise; a lone \<^verbatim>\<open>error\<close> result is an \<open>error option\<close>.
  \<^verbatim>\<open>PutObject\<close> and \<^verbatim>\<open>GetObject\<close> are never called by the service and are left out.
  A \<^verbatim>\<open>time.Duration\<close> is a number of nanoseconds.
\<close>

type_synonym Duration = int

definition Second :: Duration where
  "Second = 1000000000"

text \<open>\<^verbatim>\<open>int32(d.Seconds())\<close>, for a duration of whole seconds.\<close>

definition Seconds :: "Duration \<Rightarrow> int" where
  "Seconds d = d div Second"

record 'st Storage =
  GeneratePresignedUploadURL ::
    "string \<Rightarrow> string \<Rightarrow> string \<Rightarrow> Duration \<Rightarrow> 64 word \<Rightarrow> 'st
      \<Rightarrow> (error + string \<times> (string \<rightharpoonup> string)) \<times> 'st"
  GeneratePresignedDownloadURL ::
    "string \<Rightarrow> string \<Rightarrow> Duration \<Rightarrow> 'st \<Rightarrow> (error + string) \<times> 'st"
  DeleteObject :: "string \<Rightarrow> string \<Rightarrow> 'st \<Rightarrow> error option \<times> 'st"
  ObjectExists :: "string \<Rightarrow> string \<Rightarrow> 'st \<Rightarrow> (error + bool) \<times> 'st"
  CreateBucket :: "string \<Rightarrow> 'st \<Rightarrow> error option \<times> 'st"
  SetBucketPolicy :: "string \<Rightarrow> string \<Rightarrow> 'st \<Rightarrow> error option \<times> 'st"

text \<open>
  The calls the service makes on its backend are recorded, in order, beside the
  backend's state.
\<close>

datatype call =
    Call_GeneratePresignedUploadURL string string string Duration "64 word"
  | Call_GeneratePresignedDownloadURL string string Duration
  | Call_DeleteObject string string
  | Call_ObjectExists string string
  | Call_CreateBucket string
  | Call_SetBucketPolicy string string

record 'st world =
  calls :: "call list"
  backend :: 'st

definition invoke :: "call \<Rightarrow> ('st \<Rightarrow> 'r \<times> 'st) \<Rightarrow> 'st world \<Rightarrow> 'r \<times> 'st world" where
  "invoke c f w =
     (case f (backend w) of (r, st') \<Rightarrow> (r, \<lparr>calls = calls w @ [c], backend = st'\<rparr>))"

section \<open>The service\<close>

text \<open>
  The methods of \<^verbatim>\<open>Service\<close> take the world (the calls made so far and the backend's
  state) and return their result with the new world. Their calls of the logger have no
  effect on the result and are left out, as is the context argument.
\<close>

subsection \<open>Requests, responses and configuration\<close>

text \<open>
  The request and response messages, with the fields the service reads and writes:
  \<^verbatim>\<open>MaxFileSize\<close> is a signed 64-bit integer, \<^verbatim>\<open>ExpiresIn\<close> a signed 32-bit one (it only
  ever holds 60 or 3600).
\<close>

record PresignUploadRequest =
  BucketName :: string
  ContentType :: string
  MaxFileSize :: "64 word"
  Path :: string
  FileName :: string

record PresignUploadResponse =
  PresignedUrl :: string
  ObjectKey :: string
  ExpiresIn :: int
  FormData :: "string \<rightharpoonup> string"

record PresignDownloadRequest =
  BucketName :: string
  ObjectKey :: string

record PresignDownloadResponse =
  PresignedUrl :: string
  ExpiresIn :: int

record DeleteObjectRequest =
  BucketName :: string
  ObjectKey :: string

record DeleteObjectResponse =
  Success :: bool

record CreateBucketRequest =
  BucketName :: string
  IsPublic :: bool

record CreateBucketResponse =
  Success :: bool

text \<open>
  The service's configuration; its \<^verbatim>\<open>StorageConfig\<close> (endpoint and credentials of the
  backend) is not read by \<^verbatim>\<open>NewService\<close> and is left out.
\<close>

record Config =
  MaxFileSize :: "64 word"
  AllowedContentTypes :: "string list"

record 'st Service =
  storage :: "'st Storage"
  maxFileSize :: "64 word"
  allowedContentTypes :: "string \<rightharpoonup> bool"

text \<open>\<^verbatim>\<open>NewService\<close>: the allow-list becomes a map from each listed type to \<^verbatim>\<open>true\<close>.\<close>

fun allowedMap_of :: "string list \<Rightarrow> (string \<rightharpoonup> bool) \<Rightarrow> (string \<rightharpoonup> bool)" where
  "allowedMap_of [] allowedMap = allowedMap"
| "allowedMap_of (ct # cts) allowedMap = allowedMap_of cts (allowedMap(ct \<mapsto> True))"

definition NewService :: "Config \<Rightarrow> 'st Storage \<Rightarrow> 'st Service" where
  "NewService cfg storageProvider =
     \<lparr>storage = storageProvider,
      maxFileSize = Config.MaxFileSize cfg,
      allowedContentTypes = allowedMap_of (AllowedContentTypes cfg) Map.empty\<rparr>"

definition defaultUploadExpiry :: Duration where
  "defaultUploadExpiry = 60 * Second"

definition defaultDownloadExpiry :: Duration where
  "defaultDownloadExpiry = 3600 * Second"

subsection \<open>Helper functions\<close>

text \<open>Reading a Go \<^verbatim>\<open>map[string]bool\<close> at a missing key gives \<^verbatim>\<open>false\<close>.\<close>

definition isValidContentType :: "'st Service \<Rightarrow> string \<Rightarrow> bool" where
  "isValidContentType s contentType =
     (case allowedContentTypes s contentType of None \<Rightarrow> False | Some b \<Rightarrow> b)"

text \<open>
  \<open>rnd\<close> is the 16 bytes that \<^verbatim>\<open>uuid.New\<close> reads from the random source; they are
  used only when \<open>fileName\<close> is empty.
\<close>

definition generateObjectKey :: "string \<Rightarrow> string \<Rightarrow> string \<Rightarrow> 8 word list \<Rightarrow> string" where
  "generateObjectKey path fileName contentType rnd =
     (let name =
        (if fileName \<noteq> [] then fileName
         else
           let id = UUID_String (uuid_New rnd);
               ext = (if contentType = ''image/jpeg'' then ''.jpg''
                      else if contentType = ''image/png'' then ''.png''
                      else if contentType = ''image/webp'' then ''.webp''
                      else ''.bin'')
           in id @ ext)
      in if path \<noteq> [] then filepath_Join [path, name] else name)"

subsection \<open>PresignUpload\<close>

definition Service_PresignUpload ::
  "'st Service \<Rightarrow> PresignUploadRequest \<Rightarrow> 8 word list \<Rightarrow> 'st world
    \<Rightarrow> (error + PresignUploadResponse) \<times> 'st world" where
  "Service_PresignUpload s req rnd w =
     (if \<not> isValidContentType s (ContentType req) then
        (Inl (errorString (''invalid content type: '' @ ContentType req)), w)
      else if sint (maxFileSize s) < sint (PresignUploadRequest.MaxFileSize req) then
        (Inl (errorString (''requested max file size ''
                @ fmt_d (sint (PresignUploadRequest.MaxFileSize req))
                @ '' exceeds server maximum allowed size '' @ fmt_d (sint (maxFileSize s)))), w)
      else
        let objectKey = generateObjectKey (Path req) (FileName req) (ContentType req) rnd in
        (case invoke
               (Call_GeneratePresignedUploadURL (PresignUploadRequest.BucketName req) objectKey
                  (ContentType req) defaultUploadExpiry (PresignUploadRequest.MaxFileSize req))
               (GeneratePresignedUploadURL (storage s) (PresignUploadRequest.BucketName req) objectKey
                  (ContentType req) defaultUploadExpiry (PresignUploadRequest.MaxFileSize req)) w of
          (Inl err, w') \<Rightarrow> (Inl (Errorf_w ''failed to generate presigned upload URL: '' err), w')
        | (Inr (presignedURL, formData), w') \<Rightarrow>
            (Inr \<lparr>PresignUploadResponse.PresignedUrl = presignedURL,
                  PresignUploadResponse.ObjectKey = objectKey,
                  PresignUploadResponse.ExpiresIn = Seconds defaultUploadExpiry,
                  PresignUploadResponse.FormData = formData\<rparr>, w')))"

subsection \<open>PresignDownload\<close>

definition Service_PresignDownload ::
  "'st Service \<Rightarrow> PresignDownloadRequest \<Rightarrow> 'st world
    \<Rightarrow> (error + PresignDownloadResponse) \<times> 'st world" where
  "Service_PresignDownload s req w =
     (case invoke
             (Call_ObjectExists (PresignDownloadRequest.BucketName req)
                (PresignDownloadRequest.ObjectKey req))
             (ObjectExists (storage s) (PresignDownloadRequest.BucketName req)
                (PresignDownloadRequest.ObjectKey req)) w of
        (Inl err, w1) \<Rightarrow> (Inl (Errorf_w ''failed to check object existence: '' err), w1)
      | (Inr exists, w1) \<Rightarrow>
          if \<not> exists then
            (Inl (errorString (''object not found: '' @ PresignDownloadRequest.ObjectKey req
                    @ '' in bucket: '' @ PresignDownloadRequest.BucketName req)), w1)
          else
            (case invoke
                    (Call_GeneratePresignedDownloadURL (PresignDownloadRequest.BucketName req)
                       (PresignDownloadRequest.ObjectKey req) defaultDownloadExpiry)
                    (GeneratePresignedDownloadURL (storage s) (PresignDownloadRequest.BucketName req)
                       (PresignDownloadRequest.ObjectKey req) defaultDownloadExpiry) w1 of
               (Inl err, w2) \<Rightarrow>
                 (Inl (Errorf_w ''failed to generate presigned download URL: '' err), w2)
             | (Inr presignedURL, w2) \<Rightarrow>
                 (Inr \<lparr>PresignDownloadResponse.PresignedUrl = presignedURL,
                       PresignDownloadResponse.ExpiresIn = Seconds defaultDownloadExpiry\<rparr>, w2)))"

subsection \<open>DeleteObject\<close>

definition Service_DeleteObject ::
  "'st Service \<Rightarrow> DeleteObjectRequest \<Rightarrow> 'st world
    \<Rightarrow> (error + DeleteObjectResponse) \<times> 'st world" where
  "Service_DeleteObject s req w =
     (case invoke
             (Call_DeleteObject (DeleteObjectRequest.BucketName req)
                (DeleteObjectRequest.ObjectKey req))
             (DeleteObject (storage s) (DeleteObjectRequest.BucketName req)
                (DeleteObjectRequest.ObjectKey req)) w of
        (Some err, w') \<Rightarrow> (Inl (Errorf_w ''failed to delete object: '' err), w')
      | (None, w') \<Rightarrow> (Inr \<lparr>DeleteObjectResponse.Success = True\<rparr>, w'))"

subsection \<open>CreateBucket\<close>

text \<open>
  The policy document: the raw string literal of the source, line breaks and tabs
  included, with the bucket name in the place of \<^verbatim>\<open>%s\<close>.
\<close>

definition nl :: string where
  "nl = [CHR 0x0A]"

definition tabs :: "nat \<Rightarrow> string" where
  "tabs n = replicate n (CHR 0x09)"

definition policy_head :: string where
  "policy_head =
     ''{'' @ nl @
     tabs 3 @ ''\"Version\": \"2012-10-17\",'' @ nl @
     tabs 3 @ ''\"Statement\": ['' @ nl @
     tabs 4 @ ''{'' @ nl @
     tabs 5 @ ''\"Effect\": \"Allow\",'' @ nl @
     tabs 5 @ ''\"Principal\": {\"AWS\": [\"*\"]},'' @ nl @
     tabs 5 @ ''\"Action\": [\"s3:GetObject\"],'' @ nl @
     tabs 5 @ ''\"Resource\": [\"arn:aws:s3:::''"

definition policy_tail :: string where
  "policy_tail =
     ''/*\"]'' @ nl @
     tabs 4 @ ''}'' @ nl @
     tabs 3 @ '']'' @ nl @
     tabs 2 @ ''}''"

definition publicReadPolicy :: "string \<Rightarrow> string" where
  "publicReadPolicy bucketName = policy_head @ bucketName @ policy_tail"

definition Service_CreateBucket ::
  "'st Service \<Rightarrow> CreateBucketRequest \<Rightarrow> 'st world
    \<Rightarrow> (error + CreateBucketResponse) \<times> 'st world" where
  "Service_CreateBucket s req w =
     (case invoke (Call_CreateBucket (CreateBucketRequest.BucketName req))
             (CreateBucket (storage s) (CreateBucketRequest.BucketName req)) w of
        (Some err, w1) \<Rightarrow> (Inl (Errorf_w ''failed to create bucket: '' err), w1)
      | (None, w1) \<Rightarrow>
          if IsPublic req then
            let policy = publicReadPolicy (CreateBucketRequest.BucketName req) in
            (case invoke (Call_SetBucketPolicy (CreateBucketRequest.BucketName req) policy)
                    (SetBucketPolicy (storage s) (CreateBucketRequest.BucketName req) policy) w1 of
               (Some err, w2) \<Rightarrow> (Inl (Errorf_w ''failed to set bucket policy: '' err), w2)
             | (None, w2) \<Rightarrow> (Inr \<lparr>CreateBucketResponse.Success = True\<rparr>, w2))
          else (Inr \<lparr>CreateBucketResponse.Success = True\<rparr>, w1))"

section \<open>The MinIO backend: CreateBucket\<close>

text \<open>
  \<^verbatim>\<open>MinIOStorage.CreateBucket\<close> asks the MinIO client whether the bucket exists and makes
  it only when it does not. The client is a library; its two methods are fields of a
  record, functions on the state \<open>'c\<close> of the object store.
\<close>

record 'c minio_Client =
  BucketExists :: "string \<Rightarrow> 'c \<Rightarrow> (error + bool) \<times> 'c"
  MakeBucket :: "string \<Rightarrow> 'c \<Rightarrow> error option \<times> 'c"

definition MinIOStorage_CreateBucket :: "'c minio_Client \<Rightarrow> string \<Rightarrow> 'c \<Rightarrow> error option \<times> 'c" where
  "MinIOStorage_CreateBucket client bucketName c =
     (case BucketExists client bucketName c of
        (Inl err, c1) \<Rightarrow> (Some (Errorf_w ''failed to check bucket existence: '' err), c1)
      | (Inr exists, c1) \<Rightarrow>
          if \<not> exists then
            (case MakeBucket client bucketName c1 of
               (Some err, c2) \<Rightarrow> (Some (Errorf_w ''failed to create bucket: '' err), c2)
             | (None, c2) \<Rightarrow> (None, c2))
          else (None, c1))"

subsection \<open>github.com/minio/minio-go: bucket names\<close>

text \<open>
  Before any request, the client's \<^verbatim>\<open>BucketExists\<close> checks the bucket name with
  \<^verbatim>\<open>s3utils.CheckValidBucketName\<close> and \<^verbatim>\<open>MakeBucket\<close> with \<^verbatim>\<open>CheckValidBucketNameStrict\<close>:
  the name is not blank (\<^verbatim>\<open>strings.TrimSpace\<close> leaves something: not only ASCII or
  Unicode white space, read as UTF-8), has 3 to 63 bytes, is not an IP address
  (\<^verbatim>\<open>^(\d+\.){3}\d+$\<close>), has none of \<^verbatim>\<open>..\<close>, \<^verbatim>\<open>.-\<close>, \<^verbatim>\<open>-.\<close> in it and matches
  \<^verbatim>\<open>^[A-Za-z0-9][A-Za-z0-9\.\-\_\:]{1,61}[A-Za-z0-9]$\<close>, or with the strict check
  \<^verbatim>\<open>^[a-z0-9][a-z0-9\.\-]{1,61}[a-z0-9]$\<close>.
\<close>

definition is_digit :: "char \<Rightarrow> bool" where
  "is_digit c \<longleftrightarrow> 48 \<le> (of_char c :: nat) \<and> (of_char c :: nat) \<le> 57"

definition is_lower :: "char \<Rightarrow> bool" where
  "is_lower c \<longleftrightarrow> 97 \<le> (of_char c :: nat) \<and> (of_char c :: nat) \<le> 122"

definition is_upper :: "char \<Rightarrow> bool" where
  "is_upper c \<longleftrightarrow> 65 \<le> (of_char c :: nat) \<and> (of_char c :: nat) \<le> 90"

definition asciiSpace :: "char \<Rightarrow> bool" where
  "asciiSpace c \<longleftrightarrow>
     c = CHR 0x09 \<or> c = CHR 0x0A \<or> c = CHR 0x0B \<or> c = CHR 0x0C \<or> c = CHR 0x0D \<or> c = CHR '' ''"

fun all_space :: "string \<Rightarrow> bool" where
  "all_space [] = True"
| "all_space (c # cs) =
     (if asciiSpace c then all_space cs
      else if c = CHR 0xC2 then
        (case cs of
           d # ds \<Rightarrow> (d = CHR 0x85 \<or> d = CHR 0xA0) \<and> all_space ds
         | [] \<Rightarrow> False)
      else if c = CHR 0xE1 then
        (case cs of
           d # e # ds \<Rightarrow> d = CHR 0x9A \<and> e = CHR 0x80 \<and> all_space ds
         | _ \<Rightarrow> False)
      else if c = CHR 0xE2 then
        (case cs of
           d # e # ds \<Rightarrow>
             (d = CHR 0x80 \<and> (128 \<le> (of_char e :: nat) \<and> (of_char e :: nat) \<le> 138
                 \<or> e = CHR 0xA8 \<or> e = CHR 0xA9 \<or> e = CHR 0xAF)
              \<or> d = CHR 0x81 \<and> e = CHR 0x9F) \<and> all_space ds
         | _ \<Rightarrow> False)
      else if c = CHR 0xE3 then
        (case cs of
           d # e # ds \<Rightarrow> d = CHR 0x80 \<and> e = CHR 0x80 \<and> all_space ds
         | _ \<Rightarrow> False)
      else False)"

fun strings_Contains :: "string \<Rightarrow> string \<Rightarrow> bool" where
  "strings_Contains [] substr = (substr = [])"
| "strings_Contains (c # cs) substr =
     (take (length substr) (c # cs) = substr \<or> strings_Contains cs substr)"

fun dot_fields :: "string \<Rightarrow> string list" where
  "dot_fields [] = [[]]"
| "dot_fields (c # cs) =
     (if c = CHR ''.'' then [] # dot_fields cs
      else (case dot_fields cs of [] \<Rightarrow> [[c]] | f # fs \<Rightarrow> (c # f) # fs))"

definition ipAddress :: "string \<Rightarrow> bool" where
  "ipAddress s \<longleftrightarrow>
     length (dot_fields s) = 4 \<and> list_all (\<lambda>f. f \<noteq> [] \<and> list_all is_digit f) (dot_fields s)"

definition bucket_char :: "char \<Rightarrow> bool" where
  "bucket_char c \<longleftrightarrow>
     is_upper c \<or> is_lower c \<or> is_digit c
     \<or> c = CHR ''.'' \<or> c = CHR ''-'' \<or> c = CHR ''_'' \<or> c = CHR '':''"

definition validBucketName :: "string \<Rightarrow> bool" where
  "validBucketName s \<longleftrightarrow>
     3 \<le> length s \<and> length s \<le> 63
     \<and> (is_upper (hd s) \<or> is_lower (hd s) \<or> is_digit (hd s))
     \<and> list_all bucket_char (butlast (tl s))
     \<and> (is_upper (last s) \<or> is_lower (last s) \<or> is_digit (last s))"

definition bucket_char_strict :: "char \<Rightarrow> bool" where
  "bucket_char_strict c \<longleftrightarrow> is_lower c \<or> is_digit c \<or> c = CHR ''.'' \<or> c = CHR ''-''"

definition validBucketNameStrict :: "string \<Rightarrow> bool" where
  "validBucketNameStrict s \<longleftrightarrow>
     3 \<le> length s \<and> length s \<le> 63
     \<and> (is_lower (hd s) \<or> is_digit (hd s))
     \<and> list_all bucket_char_strict (butlast (tl s))
     \<and> (is_lower (last s) \<or> is_digit (last s))"

definition checkBucketNameCommon :: "string \<Rightarrow> bool \<Rightarrow> error option" where
  "checkBucketNameCommon bucketName strict =
     (if all_space bucketName then Some (errorString ''Bucket name cannot be empty'')
      else if length bucketName < 3 then
        Some (errorString ''Bucket name cannot be shorter than 3 characters'')
      else if length bucketName > 63 then
        Some (errorString ''Bucket name cannot be longer than 63 characters'')
      else if ipAddress bucketName then Some (errorString ''Bucket name cannot be an ip address'')
      else if strings_Contains bucketName ''..'' \<or> strings_Contains bucketName ''.-''
              \<or> strings_Contains bucketName ''-.'' then
        Some (errorString ''Bucket name contains invalid characters'')
      else if strict then
        (if \<not> validBucketNameStrict bucketName
         then Some (errorString ''Bucket name contains invalid characters'') else None)
      else if \<not> validBucketName bucketName
         then Some (errorString ''Bucket name contains invalid characters'') else None)"

definition CheckValidBucketName :: "string \<Rightarrow> error option" where
  "CheckValidBucketName bucketName = checkBucketNameCommon bucketName False"

definition CheckValidBucketNameStrict :: "string \<Rightarrow> error option" where
  "CheckValidBucketNameStrict bucketName = checkBucketNameCommon bucketName True"

subsection \<open>An object store\<close>

text \<open>
  An object store behind the client: its state is the set of the buckets and the set
  of the objects (bucket and key) it holds. The client checks the bucket name as
  above and returns the check's error without asking the store; for a name that
  passes, the store answers. As S3 and MinIO do, it refuses to make a bucket that
  exists already.
\<close>

record store =
  buckets :: "string set"
  objects :: "(string \<times> string) set"

definition store_Client :: "store minio_Client" where
  "store_Client =
     \<lparr>BucketExists = (\<lambda>bucketName st.
        case CheckValidBucketName bucketName of
          Some err \<Rightarrow> (Inl err, st)
        | None \<Rightarrow> (Inr (bucketName \<in> buckets st), st)),
      MakeBucket = (\<lambda>bucketName st.
        case CheckValidBucketNameStrict bucketName of
          Some err \<Rightarrow> (Some err, st)
        | None \<Rightarrow>
            if bucketName \<in> buckets st
            then (Some (errorString ''Your previous request to create the named bucket succeeded and you already own it.''), st)
            else (None, st\<lparr>buckets := insert bucketName (buckets st)\<rparr>))\<rparr>"

section \<open>A backend for running the service\<close>

text \<open>
  A backend on that object store, on which the service can be run: buckets are created
  by \<^verbatim>\<open>MinIOStorage.CreateBucket\<close>; every request to sign is signed and every policy is
  accepted.
\<close>

definition store_Storage :: "store Storage" where
  "store_Storage =
     \<lparr>GeneratePresignedUploadURL = (\<lambda>bucketName objectKey contentType expiryDuration maxSize st.
        (Inr (''http://minio:9000/'' @ bucketName,
              [''bucket'' \<mapsto> bucketName, ''key'' \<mapsto> objectKey, ''Content-Type'' \<mapsto> contentType]), st)),
      GeneratePresignedDownloadURL = (\<lambda>bucketName objectKey expiryDuration st.
        (Inr (''http://minio:9000/'' @ bucketName @ ''/'' @ objectKey), st)),
      DeleteObject = (\<lambda>bucketName objectKey st.
        (None, st\<lparr>objects := objects st - {(bucketName, objectKey)}\<rparr>)),
      ObjectExists = (\<lambda>bucketName objectKey st. (Inr ((bucketName, objectKey) \<in> objects st), st)),
      CreateBucket = MinIOStorage_CreateBucket store_Client,
      SetBucketPolicy = (\<lambda>bucketName policy st. (None, st))\<rparr>"

text \<open>A configuration, a request and a starting state on which the service is run.\<close>

definition example_Config :: Config where
  "example_Config =
     \<lparr>Config.MaxFileSize = 10485760,
      AllowedContentTypes = [''image/jpeg'', ''image/png'', ''image/webp'']\<rparr>"

definition example_upload :: PresignUploadRequest where
  "example_upload =
     \<lparr>PresignUploadRequest.BucketName = ''mediatest'', ContentType = ''image/jpeg'',
      MaxFileSize = 5242880, Path = ''users/avatars'', FileName = ''avatar.jpg''\<rparr>"

definition empty_store :: store where
  "empty_store = \<lparr>buckets = {}, objects = {}\<rparr>"

definition empty_world :: "store world" where
  "empty_world = \<lparr>calls = [], backend = empty_store\<rparr>"

definition avatar_world :: "store world" where
  "avatar_world =
     \<lparr>calls = [],
      backend = \<lparr>buckets = {''mediatest''},
                 objects = {(''mediatest'', ''users/avatars/avatar.jpg'')}\<rparr>\<rparr>"

definition example_download :: PresignDownloadRequest where
  "example_download =
     \<lparr>PresignDownloadRequest.BucketName = ''mediatest'',
      ObjectKey = ''users/avatars/avatar.jpg''\<rparr>"

definition denying_Storage :: "store Storage" where
  "denying_Storage =
     store_Storage\<lparr>SetBucketPolicy := (\<lambda>bucketName policy st. (Some (errorString ''Access Denied.''), st))\<rparr>"

text \<open>A backend that shows, in the form data, the size limit it was given.\<close>

definition sizing_Storage :: "store Storage" where
  "sizing_Storage =
     store_Storage\<lparr>GeneratePresignedUploadURL :=
       (\<lambda>bucketName objectKey contentType expiryDuration maxSize st.
          (Inr (''http://minio:9000/'' @ bucketName,
                [''key'' \<mapsto> objectKey, ''content-length-range'' \<mapsto> ''0,'' @ fmt_d (sint maxSize)]), st))\<rparr>"

definition example_rnd :: "8 word list" where
  "example_rnd = [0x3b, 0x24, 0x1a, 0x01, 0xf5, 0x9c, 0x9d, 0x0b, 0x2e, 0x63, 0x12, 0xa1, 0xc4, 0x7e, 0x55, 0x90]"

definition example_public_bucket :: CreateBucketRequest where
  "example_public_bucket = \<lparr>CreateBucketRequest.BucketName = ''mediatest'', IsPublic = True\<rparr>"

section \<open>Vocabulary of the properties\<close>

subsection \<open>Paths that cleaning leaves alone\<close>

text \<open>
  The elements of a path are the pieces between its separators. A path is in clean
  form when cleaning has nothing to do: a rooted path whose elements, after the root,
  are all plain (not empty, not \<^verbatim>\<open>.\<close>, not \<^verbatim>\<open>..\<close>), or a relative path that is a run of
  \<^verbatim>\<open>..\<close> elements followed by plain elements.
\<close>

fun segments :: "string \<Rightarrow> string list" where
  "segments [] = [[]]"
| "segments (c # cs) =
     (if c = CHR ''/'' then [] # segments cs
      else (case segments cs of [] \<Rightarrow> [[c]] | e # es \<Rightarrow> (c # e) # es))"

definition plain_elem :: "string \<Rightarrow> bool" where
  "plain_elem e \<longleftrightarrow> e \<noteq> [] \<and> e \<noteq> ''.'' \<and> e \<noteq> ''..''"

definition clean_form :: "string \<Rightarrow> bool" where
  "clean_form p =
     (case p of
        [] \<Rightarrow> False
      | c # cs \<Rightarrow>
          if c = CHR ''/'' then list_all plain_elem (segments cs)
          else list_all plain_elem (dropWhile (\<lambda>e. e = ''..'') (segments p)))"

text \<open>The elements \<open>es\<close>, each after a separator.\<close>

abbreviation seps :: "string list \<Rightarrow> string" where
  "seps es \<equiv> concat (map (\<lambda>e. CHR ''/'' # e) es)"

subsection \<open>The strings of a policy document\<close>

text \<open>
  A policy document is read as JSON text: its tokens are its string literals (between
  double quotes, a backslash taking the next character with it) and, outside them,
  every character that is not white space. The actions a document grants are the
  strings of its \<^verbatim>\<open>Action\<close> arrays.
\<close>

datatype json_token = Str string | Sym char | Unterminated string

definition json_space :: "char \<Rightarrow> bool" where
  "json_space c \<longleftrightarrow> c = CHR '' '' \<or> c = CHR 0x09 \<or> c = CHR 0x0A \<or> c = CHR 0x0D"

fun json_lex :: "string option \<Rightarrow> string \<Rightarrow> json_token list" where
  "json_lex None [] = []"
| "json_lex (Some acc) [] = [Unterminated acc]"
| "json_lex None (c # cs) =
     (if c = CHR 0x22 then json_lex (Some []) cs
      else if json_space c then json_lex None cs
      else Sym c # json_lex None cs)"
| "json_lex (Some acc) (c # cs) =
     (if c = CHR 0x22 then Str acc # json_lex None cs
      else if c = CHR 0x5C then
        (case cs of
           [] \<Rightarrow> [Unterminated (acc @ [c])]
         | d # ds \<Rightarrow> json_lex (Some (acc @ [c, d])) ds)
      else json_lex (Some (acc @ [c])) cs)"

definition json_tokens :: "string \<Rightarrow> json_token list" where
  "json_tokens doc = json_lex None doc"

fun strs_until_close :: "json_token list \<Rightarrow> string list" where
  "strs_until_close [] = []"
| "strs_until_close (Str s # ts) = s # strs_until_close ts"
| "strs_until_close (Sym c # ts) = (if c = CHR '']'' then [] else strs_until_close ts)"
| "strs_until_close (Unterminated s # ts) = strs_until_close ts"

fun granted_actions :: "json_token list \<Rightarrow> string list" where
  "granted_actions [] = []"
| "granted_actions (t # ts) =
     (if t = Str ''Action'' then strs_until_close ts @ granted_actions ts
      else granted_actions ts)"

section \<open>Properties\<close>

subsection \<open>The content-type gate\<close>

lemma allowedMap_of_lookup:
  "allowedMap_of cts m ct = (if ct \<in> set cts then Some True else m ct)"
  by (induction cts arbitrary: m) auto

lemma isValidContentType_NewService:
  "isValidContentType (NewService cfg sto) ct \<longleftrightarrow> ct \<in> set (AllowedContentTypes cfg)"
  by (simp add: isValidContentType_def NewService_def allowedMap_of_lookup)

text \<open>
  Claim C2. A service built by \<^verbatim>\<open>NewService\<close> from an allow-list answers a request whose
  content type is not one of the listed strings with the error
  \<^verbatim>\<open>invalid content type: <type>\<close> and leaves the backend alone: no call is recorded and
  the backend's state is the one before. The gate lets a content type through exactly
  when it is equal, as a string, to a member of the list; then the request is not
  answered with that error.
\<close>

theorem PresignUpload_content_type_gate:
  "(ContentType req \<notin> set (AllowedContentTypes cfg) \<longrightarrow>
      Service_PresignUpload (NewService cfg sto) req rnd w
        = (Inl (errorString (''invalid content type: '' @ ContentType req)), w))
   \<and> (isValidContentType (NewService cfg sto) (ContentType req)
        \<longleftrightarrow> ContentType req \<in> set (AllowedContentTypes cfg))
   \<and> (ContentType req \<in> set (AllowedContentTypes cfg) \<longrightarrow>
        fst (Service_PresignUpload (NewService cfg sto) req rnd w)
          \<noteq> Inl (errorString (''invalid content type: '' @ ContentType req)))"
  by (auto simp: Service_PresignUpload_def isValidContentType_NewService Errorf_w_def Let_def
      split: prod.splits sum.splits)

theorem PresignUpload_content_type_gate_witness:
  "''image/jpeg; charset=x'' \<notin> set (AllowedContentTypes example_Config)
   \<and> Service_PresignUpload (NewService example_Config store_Storage)
        (example_upload\<lparr>ContentType := ''image/jpeg; charset=x''\<rparr>) [] empty_world
      = (Inl (errorString ''invalid content type: image/jpeg; charset=x''), empty_world)
   \<and> ''image/jpeg'' \<in> set (AllowedContentTypes example_Config)
   \<and> fst (Service_PresignUpload (NewService example_Config store_Storage)
        example_upload [] empty_world)
      \<noteq> Inl (errorString ''invalid content type: image/jpeg'')"
  using PresignUpload_content_type_gate
    [of "example_upload\<lparr>ContentType := ''image/jpeg; charset=x''\<rparr>" example_Config store_Storage "[]" empty_world]
    PresignUpload_content_type_gate
    [of example_upload example_Config store_Storage "[]" empty_world]
  by (simp add: example_Config_def example_upload_def)

subsection \<open>The size gate\<close>

text \<open>
  Claim C3. For a request with an allowed content type: when the requested maximum
  size is above the server's ceiling (both signed 64-bit), PresignUpload answers with
  the error \<^verbatim>\<open>requested max file size <m> exceeds server maximum allowed size <c>\<close> and
  the world is unchanged (no backend call); when it is at most the ceiling, the gate
  passes and the answer is that of the backend's GeneratePresignedUploadURL applied
  once, to the backend's state, with the requested value itself, not the ceiling, as
  \<^verbatim>\<open>maxSize\<close>.
\<close>

theorem PresignUpload_size_gate:
  assumes "isValidContentType s (ContentType req)"
  shows "(sint (maxFileSize s) < sint (PresignUploadRequest.MaxFileSize req) \<longrightarrow>
          Service_PresignUpload s req rnd w
            = (Inl (errorString (''requested max file size ''
                  @ fmt_d (sint (PresignUploadRequest.MaxFileSize req))
                  @ '' exceeds server maximum allowed size '' @ fmt_d (sint (maxFileSize s)))), w))
       \<and> (sint (PresignUploadRequest.MaxFileSize req) \<le> sint (maxFileSize s) \<longrightarrow>
          Service_PresignUpload s req rnd w
            = (case GeneratePresignedUploadURL (storage s) (PresignUploadRequest.BucketName req)
                      (generateObjectKey (Path req) (FileName req) (ContentType req) rnd)
                      (ContentType req) (60 * Second) (PresignUploadRequest.MaxFileSize req)
                      (backend w) of
                 (Inl err, st') \<Rightarrow>
                   (Inl (Errorf_w ''failed to generate presigned upload URL: '' err),
                    \<lparr>calls = calls w @ [Call_GeneratePresignedUploadURL
                        (PresignUploadRequest.BucketName req)
                        (generateObjectKey (Path req) (FileName req) (ContentType req) rnd)
                        (ContentType req) (60 * Second) (PresignUploadRequest.MaxFileSize req)],
                     backend = st'\<rparr>)
               | (Inr (presignedURL, formData), st') \<Rightarrow>
                   (Inr \<lparr>PresignUploadResponse.PresignedUrl = presignedURL,
                         PresignUploadResponse.ObjectKey =
                           generateObjectKey (Path req) (FileName req) (ContentType req) rnd,
                         PresignUploadResponse.ExpiresIn = 60,
                         PresignUploadResponse.FormData = formData\<rparr>,
                    \<lparr>calls = calls w @ [Call_GeneratePresignedUploadURL
                        (PresignUploadRequest.BucketName req)
                        (generateObjectKey (Path req) (FileName req) (ContentType req) rnd)
                        (ContentType req) (60 * Second) (PresignUploadRequest.MaxFileSize req)],
                     backend = st'\<rparr>)))"
  using assms
  by (auto simp: Service_PresignUpload_def Let_def invoke_def defaultUploadExpiry_def
      Seconds_def Second_def split: prod.splits sum.splits)

theorem PresignUpload_size_gate_witness:
  "isValidContentType (NewService example_Config sizing_Storage) ''image/jpeg''
   \<and> Service_PresignUpload (NewService example_Config sizing_Storage)
        (example_upload\<lparr>PresignUploadRequest.MaxFileSize := 10485761\<rparr>) [] empty_world
      = (Inl (errorString ''requested max file size 10485761 exceeds server maximum allowed size 10485760''),
         empty_world)
   \<and> Service_PresignUpload (NewService example_Config sizing_Storage) example_upload []
        empty_world
      = (Inr \<lparr>PresignUploadResponse.PresignedUrl = ''http://minio:9000/mediatest'',
              PresignUploadResponse.ObjectKey = ''users/avatars/avatar.jpg'',
              PresignUploadResponse.ExpiresIn = 60,
              PresignUploadResponse.FormData =
                [''key'' \<mapsto> ''users/avatars/avatar.jpg'',
                 ''content-length-range'' \<mapsto> ''0,5242880'']\<rparr>,
         \<lparr>calls = [Call_GeneratePresignedUploadURL ''mediatest'' ''users/avatars/avatar.jpg''
             ''image/jpeg'' 60000000000 5242880],
          backend = empty_store\<rparr>)"
proof -
  have v: "isValidContentType (NewService example_Config sizing_Storage) ''image/jpeg''"
    by (simp add: isValidContentType_def NewService_def example_Config_def)
  have k: "generateObjectKey ''users/avatars'' ''avatar.jpg'' ''image/jpeg'' [] = ''users/avatars/avatar.jpg''"
    by (simp add: generateObjectKey_def Clean_def)
  have d1: "fmt_d 10485761 = ''10485761''" by (simp add: fmt_d_def digits.simps)
  have d2: "fmt_d 10485760 = ''10485760''" by (simp add: fmt_d_def digits.simps)
  have d3: "fmt_d 5242880 = ''5242880''" by (simp add: fmt_d_def digits.simps)
  show ?thesis
    using v
      PresignUpload_size_gate [of "NewService example_Config sizing_Storage"
        "example_upload\<lparr>PresignUploadRequest.MaxFileSize := 10485761\<rparr>" "[]" empty_world]
      PresignUpload_size_gate [of "NewService example_Config sizing_Storage"
        example_upload "[]" empty_world]
    by (simp add: example_upload_def NewService_def example_Config_def empty_world_def k d1 d2 d3
        sizing_Storage_def Second_def)
qed

text \<open>
  Claim C10. The size gate has no lower bound. For a request with an allowed content
  type and a requested maximum size at most the ceiling, zero and negative values
  included, no gate rejects: the backend is called once, with the requested value
  unchanged as \<^verbatim>\<open>maxSize\<close>, and the answer of PresignUpload is the backend's (its
  error wrapped, or a response).
\<close>


theorem PresignUpload_no_lower_bound:
  assumes "isValidContentType s (ContentType req)"
    and "sint (PresignUploadRequest.MaxFileSize req) \<le> sint (maxFileSize s)"
  shows "\<exists>r st'.
      GeneratePresignedUploadURL (storage s) (PresignUploadRequest.BucketName req)
        (generateObjectKey (Path req) (FileName req) (ContentType req) rnd)
        (ContentType req) defaultUploadExpiry (PresignUploadRequest.MaxFileSize req) (backend w)
        = (r, st')
      \<and> snd (Service_PresignUpload s req rnd w)
        = \<lparr>calls = calls w @ [Call_GeneratePresignedUploadURL (PresignUploadRequest.BucketName req)
              (generateObjectKey (Path req) (FileName req) (ContentType req) rnd)
              (ContentType req) defaultUploadExpiry (PresignUploadRequest.MaxFileSize req)],
            backend = st'\<rparr>
      \<and> (case r of
            Inl err \<Rightarrow> fst (Service_PresignUpload s req rnd w)
              = Inl (Errorf_w ''failed to generate presigned upload URL: '' err)
          | Inr (presignedURL, formData) \<Rightarrow>
              \<exists>resp. fst (Service_PresignUpload s req rnd w) = Inr resp)"
  using assms
  by (auto simp: Service_PresignUpload_def Let_def invoke_def split: prod.splits sum.splits)

theorem PresignUpload_no_lower_bound_witness:
  "isValidContentType (NewService example_Config store_Storage) ''image/jpeg''
   \<and> sint (- 1 :: 64 word) \<le> sint (maxFileSize (NewService example_Config store_Storage))
   \<and> sint (0 :: 64 word) \<le> sint (maxFileSize (NewService example_Config store_Storage))
   \<and> calls (snd (Service_PresignUpload (NewService example_Config store_Storage)
        (example_upload\<lparr>PresignUploadRequest.MaxFileSize := - 1\<rparr>) [] empty_world))
      = [Call_GeneratePresignedUploadURL ''mediatest'' ''users/avatars/avatar.jpg''
           ''image/jpeg'' 60000000000 (- 1)]
   \<and> calls (snd (Service_PresignUpload (NewService example_Config store_Storage)
        (example_upload\<lparr>PresignUploadRequest.MaxFileSize := 0\<rparr>) [] empty_world))
      = [Call_GeneratePresignedUploadURL ''mediatest'' ''users/avatars/avatar.jpg''
           ''image/jpeg'' 60000000000 0]"
proof -
  have v: "isValidContentType (NewService example_Config store_Storage) ''image/jpeg''"
    by (simp add: isValidContentType_def NewService_def example_Config_def)
  have k: "generateObjectKey ''users/avatars'' ''avatar.jpg'' ''image/jpeg'' [] = ''users/avatars/avatar.jpg''"
    by (simp add: generateObjectKey_def Clean_def)
  have m: "sint (- 1 :: 64 word) \<le> sint (maxFileSize (NewService example_Config store_Storage))"
    by (simp add: NewService_def example_Config_def)
  have z: "sint (0 :: 64 word) \<le> sint (maxFileSize (NewService example_Config store_Storage))"
    by (simp add: NewService_def example_Config_def)
  show ?thesis
    using v m z
      PresignUpload_no_lower_bound [of "NewService example_Config store_Storage"
        "example_upload\<lparr>PresignUploadRequest.MaxFileSize := - 1\<rparr>" "[]" empty_world]
      PresignUpload_no_lower_bound [of "NewService example_Config store_Storage"
        "example_upload\<lparr>PresignUploadRequest.MaxFileSize := 0\<rparr>" "[]" empty_world]
    by (auto simp: example_upload_def empty_world_def k defaultUploadExpiry_def Second_def)
qed


subsection \<open>PresignDownload\<close>

text \<open>
  Claim C4. PresignDownload calls ObjectExists before anything else. When ObjectExists
  answers that the object does not exist, the result is the error
  \<^verbatim>\<open>object not found: <key> in bucket: <bucket>\<close> and ObjectExists is the only call made:
  GeneratePresignedDownloadURL is not called. When the object exists and
  GeneratePresignedDownloadURL, called with a TTL of 3600 seconds, succeeds, the
  response carries its URL and \<^verbatim>\<open>ExpiresIn = 3600\<close>.
\<close>


theorem PresignDownload_checks_existence_first:
  "(\<exists>rest. calls (snd (Service_PresignDownload s req w))
       = calls w @ Call_ObjectExists (PresignDownloadRequest.BucketName req)
           (PresignDownloadRequest.ObjectKey req) # rest)
   \<and> (\<forall>st1. ObjectExists (storage s) (PresignDownloadRequest.BucketName req)
          (PresignDownloadRequest.ObjectKey req) (backend w) = (Inr False, st1) \<longrightarrow>
        Service_PresignDownload s req w
          = (Inl (errorString (''object not found: '' @ PresignDownloadRequest.ObjectKey req
                @ '' in bucket: '' @ PresignDownloadRequest.BucketName req)),
             \<lparr>calls = calls w @ [Call_ObjectExists (PresignDownloadRequest.BucketName req)
                 (PresignDownloadRequest.ObjectKey req)],
              backend = st1\<rparr>))
   \<and> (\<forall>st1 st2 url. ObjectExists (storage s) (PresignDownloadRequest.BucketName req)
          (PresignDownloadRequest.ObjectKey req) (backend w) = (Inr True, st1)
        \<and> GeneratePresignedDownloadURL (storage s) (PresignDownloadRequest.BucketName req)
          (PresignDownloadRequest.ObjectKey req) (3600 * Second) st1 = (Inr url, st2) \<longrightarrow>
        Service_PresignDownload s req w
          = (Inr \<lparr>PresignDownloadResponse.PresignedUrl = url,
                  PresignDownloadResponse.ExpiresIn = 3600\<rparr>,
             \<lparr>calls = calls w @ [Call_ObjectExists (PresignDownloadRequest.BucketName req)
                 (PresignDownloadRequest.ObjectKey req),
                 Call_GeneratePresignedDownloadURL (PresignDownloadRequest.BucketName req)
                 (PresignDownloadRequest.ObjectKey req) (3600 * Second)],
              backend = st2\<rparr>))"
  by (auto simp: Service_PresignDownload_def invoke_def defaultDownloadExpiry_def Seconds_def
      Second_def split: prod.splits sum.splits)

theorem PresignDownload_checks_existence_first_witness:
  "ObjectExists store_Storage ''mediatest'' ''users/avatars/avatar.jpg'' empty_store
      = (Inr False, empty_store)
   \<and> Service_PresignDownload (NewService example_Config store_Storage) example_download empty_world
      = (Inl (errorString ''object not found: users/avatars/avatar.jpg in bucket: mediatest''),
         \<lparr>calls = [Call_ObjectExists ''mediatest'' ''users/avatars/avatar.jpg''],
          backend = empty_store\<rparr>)
   \<and> ObjectExists store_Storage ''mediatest'' ''users/avatars/avatar.jpg'' (backend avatar_world)
      = (Inr True, backend avatar_world)
   \<and> Service_PresignDownload (NewService example_Config store_Storage) example_download
        avatar_world
      = (Inr \<lparr>PresignDownloadResponse.PresignedUrl = ''http://minio:9000/mediatest/users/avatars/avatar.jpg'',
              PresignDownloadResponse.ExpiresIn = 3600\<rparr>,
         \<lparr>calls = [Call_ObjectExists ''mediatest'' ''users/avatars/avatar.jpg'',
             Call_GeneratePresignedDownloadURL ''mediatest'' ''users/avatars/avatar.jpg'' 3600000000000],
          backend = backend avatar_world\<rparr>)"
  using PresignDownload_checks_existence_first
      [of "NewService example_Config store_Storage" example_download empty_world]
    PresignDownload_checks_existence_first
      [of "NewService example_Config store_Storage" example_download avatar_world]
  by (simp add: example_download_def empty_world_def avatar_world_def empty_store_def
      NewService_def store_Storage_def Second_def)

subsection \<open>PresignUpload: the response\<close>

text \<open>
  Claim C7. For a request that passes both gates and for which the backend's
  GeneratePresignedUploadURL, called with a TTL of 60 seconds, succeeds: that call is
  the only one made, and the response carries the backend's URL, the derived object
  key, \<^verbatim>\<open>ExpiresIn = 60\<close> and the backend's form-data map as it is. The key derived
  for path \<^verbatim>\<open>users/avatars\<close>, file name \<^verbatim>\<open>avatar.jpg\<close> and content type \<^verbatim>\<open>image/jpeg\<close> is
  \<^verbatim>\<open>users/avatars/avatar.jpg\<close>.
\<close>

theorem PresignUpload_success:
  assumes "isValidContentType s (ContentType req)"
    and "sint (PresignUploadRequest.MaxFileSize req) \<le> sint (maxFileSize s)"
    and "GeneratePresignedUploadURL (storage s) (PresignUploadRequest.BucketName req)
           (generateObjectKey (Path req) (FileName req) (ContentType req) rnd)
           (ContentType req) (60 * Second) (PresignUploadRequest.MaxFileSize req) (backend w)
         = (Inr (url, formData), st')"
  shows "Service_PresignUpload s req rnd w
         = (Inr \<lparr>PresignUploadResponse.PresignedUrl = url,
                 PresignUploadResponse.ObjectKey =
                   generateObjectKey (Path req) (FileName req) (ContentType req) rnd,
                 PresignUploadResponse.ExpiresIn = 60,
                 PresignUploadResponse.FormData = formData\<rparr>,
            \<lparr>calls = calls w @ [Call_GeneratePresignedUploadURL
                (PresignUploadRequest.BucketName req)
                (generateObjectKey (Path req) (FileName req) (ContentType req) rnd)
                (ContentType req) (60 * Second) (PresignUploadRequest.MaxFileSize req)],
             backend = st'\<rparr>)
       \<and> generateObjectKey ''users/avatars'' ''avatar.jpg'' ''image/jpeg'' rnd
         = ''users/avatars/avatar.jpg''"
proof
  show "generateObjectKey ''users/avatars'' ''avatar.jpg'' ''image/jpeg'' rnd
         = ''users/avatars/avatar.jpg''"
    by (simp add: generateObjectKey_def Clean_def)
next
  from assms show "Service_PresignUpload s req rnd w
         = (Inr \<lparr>PresignUploadResponse.PresignedUrl = url,
                 PresignUploadResponse.ObjectKey =
                   generateObjectKey (Path req) (FileName req) (ContentType req) rnd,
                 PresignUploadResponse.ExpiresIn = 60,
                 PresignUploadResponse.FormData = formData\<rparr>,
            \<lparr>calls = calls w @ [Call_GeneratePresignedUploadURL
                (PresignUploadRequest.BucketName req)
                (generateObjectKey (Path req) (FileName req) (ContentType req) rnd)
                (ContentType req) (60 * Second) (PresignUploadRequest.MaxFileSize req)],
             backend = st'\<rparr>)"
    by (simp add: Service_PresignUpload_def Let_def invoke_def defaultUploadExpiry_def
        Seconds_def Second_def)
qed

theorem PresignUpload_success_witness:
  "isValidContentType (NewService example_Config store_Storage) (ContentType example_upload)
   \<and> sint (PresignUploadRequest.MaxFileSize example_upload)
        \<le> sint (maxFileSize (NewService example_Config store_Storage))
   \<and> Service_PresignUpload (NewService example_Config store_Storage) example_upload [] empty_world
      = (Inr \<lparr>PresignUploadResponse.PresignedUrl = ''http://minio:9000/mediatest'',
              PresignUploadResponse.ObjectKey = ''users/avatars/avatar.jpg'',
              PresignUploadResponse.ExpiresIn = 60,
              PresignUploadResponse.FormData =
                [''bucket'' \<mapsto> ''mediatest'', ''key'' \<mapsto> ''users/avatars/avatar.jpg'',
                 ''Content-Type'' \<mapsto> ''image/jpeg'']\<rparr>,
         \<lparr>calls = [Call_GeneratePresignedUploadURL ''mediatest'' ''users/avatars/avatar.jpg''
             ''image/jpeg'' 60000000000 5242880],
          backend = empty_store\<rparr>)"
proof -
  have v: "isValidContentType (NewService example_Config store_Storage) (ContentType example_upload)"
    by (simp add: isValidContentType_def NewService_def example_Config_def example_upload_def)
  have m: "sint (PresignUploadRequest.MaxFileSize example_upload)
        \<le> sint (maxFileSize (NewService example_Config store_Storage))"
    by (simp add: NewService_def example_Config_def example_upload_def)
  have k: "generateObjectKey ''users/avatars'' ''avatar.jpg'' ''image/jpeg'' [] = ''users/avatars/avatar.jpg''"
    by (simp add: generateObjectKey_def Clean_def)
  have b: "GeneratePresignedUploadURL (storage (NewService example_Config store_Storage))
           (PresignUploadRequest.BucketName example_upload)
           (generateObjectKey (Path example_upload) (FileName example_upload)
              (ContentType example_upload) [])
           (ContentType example_upload) (60 * Second)
           (PresignUploadRequest.MaxFileSize example_upload) (backend empty_world)
         = (Inr (''http://minio:9000/mediatest'',
              [''bucket'' \<mapsto> ''mediatest'', ''key'' \<mapsto> ''users/avatars/avatar.jpg'',
               ''Content-Type'' \<mapsto> ''image/jpeg'']), empty_store)"
    by (simp add: NewService_def store_Storage_def example_upload_def k empty_world_def)
  show ?thesis
    using v m PresignUpload_success [OF v m b]
    by (simp add: example_upload_def empty_world_def k Second_def)
qed

subsection \<open>Bucket names and the object store\<close>

lemma valid_mediatest: "CheckValidBucketNameStrict ''mediatest'' = None"
  by (simp add: CheckValidBucketNameStrict_def checkBucketNameCommon_def asciiSpace_def
      ipAddress_def validBucketNameStrict_def bucket_char_strict_def is_lower_def is_digit_def)

lemma invalid_quote: "CheckValidBucketName ''x\"y'' = Some (errorString ''Bucket name contains invalid characters'')"
  by (simp add: CheckValidBucketName_def checkBucketNameCommon_def asciiSpace_def
      ipAddress_def validBucketName_def bucket_char_def is_lower_def is_upper_def is_digit_def)

lemma set_hd_mid_last:
  "2 \<le> length s \<Longrightarrow> set s = insert (hd s) (insert (last s) (set (butlast (tl s))))"
proof -
  assume l: "2 \<le> length s"
  then obtain c cs where s: "s = c # cs" by (cases s) auto
  with l have ne: "cs \<noteq> []" by auto
  then have "cs = butlast cs @ [last cs]" by simp
  then have "set cs = insert (last cs) (set (butlast cs))"
    by (metis Un_insert_right append_Nil2 list.simps(15) set_append)
  then show ?thesis using s ne by auto
qed

lemma bucket_char_plain: "bucket_char c \<Longrightarrow> c \<noteq> CHR 0x22 \<and> c \<noteq> CHR 0x5C"
  by (auto simp: bucket_char_def is_upper_def is_lower_def is_digit_def)

lemma validBucketName_chars:
  assumes "validBucketName s" and "c \<in> set s"
  shows "bucket_char c"
proof -
  have "set s = insert (hd s) (insert (last s) (set (butlast (tl s))))"
    using assms(1) by (intro set_hd_mid_last) (simp add: validBucketName_def)
  then show ?thesis
    using assms by (auto simp: validBucketName_def bucket_char_def list_all_iff)
qed

lemma CheckValidBucketName_plain:
  assumes "CheckValidBucketName s = None"
  shows "CHR 0x22 \<notin> set s \<and> CHR 0x5C \<notin> set s"
proof -
  have "validBucketName s"
    using assms by (simp add: CheckValidBucketName_def checkBucketNameCommon_def split: if_splits)
  then show ?thesis
    using validBucketName_chars bucket_char_plain by blast
qed

lemma bucket_char_strict_imp: "bucket_char_strict c \<Longrightarrow> bucket_char c"
  by (auto simp: bucket_char_strict_def bucket_char_def)

lemma validBucketNameStrict_imp: "validBucketNameStrict s \<Longrightarrow> validBucketName s"
  by (auto simp: validBucketNameStrict_def validBucketName_def list_all_iff bucket_char_strict_imp)

lemma CheckValidBucketNameStrict_imp:
  "CheckValidBucketNameStrict s = None \<Longrightarrow> CheckValidBucketName s = None"
  by (auto simp: CheckValidBucketNameStrict_def CheckValidBucketName_def checkBucketNameCommon_def
      validBucketNameStrict_imp split: if_splits)

lemma MinIOStorage_CreateBucket_store:
  "CheckValidBucketNameStrict b = None \<Longrightarrow>
   MinIOStorage_CreateBucket store_Client b st
     = (None, if b \<in> buckets st then st else st\<lparr>buckets := insert b (buckets st)\<rparr>)"
  by (simp add: MinIOStorage_CreateBucket_def store_Client_def CheckValidBucketNameStrict_imp)

lemma CreateBucket_private_store:
  "CheckValidBucketNameStrict b = None \<Longrightarrow>
   Service_CreateBucket (NewService cfg store_Storage)
     \<lparr>CreateBucketRequest.BucketName = b, IsPublic = False\<rparr> w
   = (Inr \<lparr>CreateBucketResponse.Success = True\<rparr>,
      \<lparr>calls = calls w @ [Call_CreateBucket b],
       backend = (if b \<in> buckets (backend w) then backend w
                  else (backend w)\<lparr>buckets := insert b (buckets (backend w))\<rparr>)\<rparr>)"
  by (simp add: Service_CreateBucket_def invoke_def NewService_def store_Storage_def
      MinIOStorage_CreateBucket_store)

subsection \<open>CreateBucket\<close>

text \<open>
  Claim C9. For a public bucket whose creation succeeds and whose SetBucketPolicy
  fails with \<open>err\<close>: the result is the error \<^verbatim>\<open>failed to set bucket policy: <err>\<close>,
  whose message differs from that of every bucket-creation failure
  (\<^verbatim>\<open>failed to create bucket: ...\<close>), so the call is not answered as a failed creation;
  the calls made are CreateBucket and SetBucketPolicy and nothing after them, and the
  backend is left in the state in which SetBucketPolicy left it: nothing is rolled
  back.
\<close>

theorem CreateBucket_policy_failure:
  assumes "IsPublic req"
    and "CreateBucket (storage s) (CreateBucketRequest.BucketName req) (backend w) = (None, st1)"
    and "SetBucketPolicy (storage s) (CreateBucketRequest.BucketName req)
           (publicReadPolicy (CreateBucketRequest.BucketName req)) st1 = (Some err, st2)"
  shows "Service_CreateBucket s req w
         = (Inl (Errorf_w ''failed to set bucket policy: '' err),
            \<lparr>calls = calls w @ [Call_CreateBucket (CreateBucketRequest.BucketName req),
                Call_SetBucketPolicy (CreateBucketRequest.BucketName req)
                  (publicReadPolicy (CreateBucketRequest.BucketName req))],
             backend = st2\<rparr>)
       \<and> (\<forall>err'. Error (Errorf_w ''failed to set bucket policy: '' err)
              \<noteq> Error (Errorf_w ''failed to create bucket: '' err'))
       \<and> (\<forall>err' w'. Service_CreateBucket s req w
              \<noteq> (Inl (Errorf_w ''failed to create bucket: '' err'), w'))"
  using assms
  by (simp add: Service_CreateBucket_def invoke_def Let_def Errorf_w_def)

theorem CreateBucket_policy_failure_witness:
  "IsPublic example_public_bucket
   \<and> CreateBucket denying_Storage ''mediatest'' empty_store
      = (None, \<lparr>buckets = {''mediatest''}, objects = {}\<rparr>)
   \<and> SetBucketPolicy denying_Storage ''mediatest'' (publicReadPolicy ''mediatest'')
        \<lparr>buckets = {''mediatest''}, objects = {}\<rparr>
      = (Some (errorString ''Access Denied.''), \<lparr>buckets = {''mediatest''}, objects = {}\<rparr>)
   \<and> Service_CreateBucket (NewService example_Config denying_Storage) example_public_bucket
        empty_world
      = (Inl (wrapError ''failed to set bucket policy: Access Denied.''
                (errorString ''Access Denied.'')),
         \<lparr>calls = [Call_CreateBucket ''mediatest'',
             Call_SetBucketPolicy ''mediatest'' (publicReadPolicy ''mediatest'')],
          backend = \<lparr>buckets = {''mediatest''}, objects = {}\<rparr>\<rparr>)"
proof -
  have p: "IsPublic example_public_bucket"
    by (simp add: example_public_bucket_def)
  have c: "CreateBucket (storage (NewService example_Config denying_Storage))
            (CreateBucketRequest.BucketName example_public_bucket) (backend empty_world)
      = (None, \<lparr>buckets = {''mediatest''}, objects = {}\<rparr>)"
    by (simp add: NewService_def denying_Storage_def store_Storage_def example_public_bucket_def
        empty_world_def empty_store_def MinIOStorage_CreateBucket_store valid_mediatest)
  have f: "SetBucketPolicy (storage (NewService example_Config denying_Storage))
            (CreateBucketRequest.BucketName example_public_bucket)
            (publicReadPolicy (CreateBucketRequest.BucketName example_public_bucket))
            \<lparr>buckets = {''mediatest''}, objects = {}\<rparr>
      = (Some (errorString ''Access Denied.''), \<lparr>buckets = {''mediatest''}, objects = {}\<rparr>)"
    by (simp add: NewService_def denying_Storage_def)
  show ?thesis
    using p c f CreateBucket_policy_failure [OF p c f]
    by (simp add: NewService_def example_public_bucket_def empty_world_def Errorf_w_def)
qed

text \<open>
  Claim C8, as amended. On the object store, with the MinIO backend's CreateBucket: for
  every bucket name that passes the client's strict name check and every starting
  state, two calls of CreateBucket with \<^verbatim>\<open>isPublic = false\<close> both answer
  \<^verbatim>\<open>success: true\<close>; each of them calls the backend's CreateBucket; after the first the
  bucket exists, and the second leaves the store as it is, although the store itself
  would refuse to make the bucket again. With any client: when the client reports
  that the bucket exists, the backend's CreateBucket returns no error and does nothing
  more.
\<close>

theorem CreateBucket_idempotent:
  assumes "CheckValidBucketNameStrict b = None"
  shows "(let s = NewService cfg store_Storage;
        req = \<lparr>CreateBucketRequest.BucketName = b, IsPublic = False\<rparr>;
        (r1, w1) = Service_CreateBucket s req w;
        (r2, w2) = Service_CreateBucket s req w1
    in r1 = Inr \<lparr>CreateBucketResponse.Success = True\<rparr>
     \<and> r2 = Inr \<lparr>CreateBucketResponse.Success = True\<rparr>
     \<and> calls w1 = calls w @ [Call_CreateBucket b]
     \<and> calls w2 = calls w1 @ [Call_CreateBucket b]
     \<and> b \<in> buckets (backend w1)
     \<and> backend w2 = backend w1
     \<and> fst (MakeBucket store_Client b (backend w1)) \<noteq> None)
   \<and> (BucketExists client b c = (Inr True, c1) \<longrightarrow>
        MinIOStorage_CreateBucket client b c = (None, c1))"
  using assms
  by (auto simp: CreateBucket_private_store Let_def store_Client_def MinIOStorage_CreateBucket_def)

theorem CreateBucket_idempotent_witness:
  "CheckValidBucketNameStrict ''mediatest'' = None
   \<and> BucketExists store_Client ''mediatest'' (backend avatar_world)
     = (Inr True, backend avatar_world)
   \<and> MinIOStorage_CreateBucket store_Client ''mediatest'' (backend avatar_world)
     = (None, backend avatar_world)
   \<and> Service_CreateBucket (NewService example_Config store_Storage)
        \<lparr>CreateBucketRequest.BucketName = ''mediatest'', IsPublic = False\<rparr> empty_world
     = (Inr \<lparr>CreateBucketResponse.Success = True\<rparr>,
        \<lparr>calls = [Call_CreateBucket ''mediatest''],
         backend = \<lparr>buckets = {''mediatest''}, objects = {}\<rparr>\<rparr>)
   \<and> Service_CreateBucket (NewService example_Config store_Storage)
        \<lparr>CreateBucketRequest.BucketName = ''mediatest'', IsPublic = False\<rparr>
        \<lparr>calls = [Call_CreateBucket ''mediatest''],
         backend = \<lparr>buckets = {''mediatest''}, objects = {}\<rparr>\<rparr>
     = (Inr \<lparr>CreateBucketResponse.Success = True\<rparr>,
        \<lparr>calls = [Call_CreateBucket ''mediatest'', Call_CreateBucket ''mediatest''],
         backend = \<lparr>buckets = {''mediatest''}, objects = {}\<rparr>\<rparr>)"
proof -
  have v: "CheckValidBucketNameStrict ''mediatest'' = None"
    by (rule valid_mediatest)
  have e: "BucketExists store_Client ''mediatest'' (backend avatar_world)
     = (Inr True, backend avatar_world)"
    by (simp add: store_Client_def avatar_world_def CheckValidBucketNameStrict_imp [OF v])
  have f: "Service_CreateBucket (NewService example_Config store_Storage)
        \<lparr>CreateBucketRequest.BucketName = ''mediatest'', IsPublic = False\<rparr> empty_world
     = (Inr \<lparr>CreateBucketResponse.Success = True\<rparr>,
        \<lparr>calls = [Call_CreateBucket ''mediatest''],
         backend = \<lparr>buckets = {''mediatest''}, objects = {}\<rparr>\<rparr>)"
    by (simp add: CreateBucket_private_store [OF v] empty_world_def empty_store_def)
  show ?thesis
    using v e f CreateBucket_idempotent [OF v, of example_Config empty_world
        store_Client "backend avatar_world" "backend avatar_world"]
    by (auto simp: Let_def)
qed

text \<open>
  Claim C8, as stated for every bucket name, fails: the client refuses the name
  \<^verbatim>\<open>x"y\<close> before any request, and each of the two calls of CreateBucket answers with
  that error and leaves the store as it is.
\<close>

theorem CreateBucket_invalid_name_fails:
  "Service_CreateBucket (NewService example_Config store_Storage)
     \<lparr>CreateBucketRequest.BucketName = ''x\"y'', IsPublic = False\<rparr> empty_world
   = (Inl (wrapError ''failed to create bucket: failed to check bucket existence: Bucket name contains invalid characters''
        (wrapError ''failed to check bucket existence: Bucket name contains invalid characters''
          (errorString ''Bucket name contains invalid characters''))),
      \<lparr>calls = [Call_CreateBucket ''x\"y''], backend = empty_store\<rparr>)
   \<and> Service_CreateBucket (NewService example_Config store_Storage)
     \<lparr>CreateBucketRequest.BucketName = ''x\"y'', IsPublic = False\<rparr>
     \<lparr>calls = [Call_CreateBucket ''x\"y''], backend = empty_store\<rparr>
   = (Inl (wrapError ''failed to create bucket: failed to check bucket existence: Bucket name contains invalid characters''
        (wrapError ''failed to check bucket existence: Bucket name contains invalid characters''
          (errorString ''Bucket name contains invalid characters''))),
      \<lparr>calls = [Call_CreateBucket ''x\"y'', Call_CreateBucket ''x\"y''], backend = empty_store\<rparr>)"
  by (simp add: Service_CreateBucket_def invoke_def NewService_def store_Storage_def
      MinIOStorage_CreateBucket_def store_Client_def invalid_quote Errorf_w_def empty_world_def)

subsection \<open>The generated object name\<close>

lemma length_hex_Encode: "length (hex_Encode vs) = 2 * length vs"
  by (induction vs) auto

lemma length_uuid_New: "length (uuid_New rnd) = length rnd"
  by (simp add: uuid_New_def Let_def)

lemma length_UUID_String: "length uuid = 16 \<Longrightarrow> length (UUID_String uuid) = 36"
  by (simp add: UUID_String_def length_hex_Encode)

text \<open>
  Claim C6. With an empty file name the name is the 36-character string of the UUID
  made from the 16 random bytes, followed by \<^verbatim>\<open>.jpg\<close> for \<^verbatim>\<open>image/jpeg\<close>, \<^verbatim>\<open>.png\<close> for
  \<^verbatim>\<open>image/png\<close>, \<^verbatim>\<open>.webp\<close> for \<^verbatim>\<open>image/webp\<close> and \<^verbatim>\<open>.bin\<close> for every other content type.
  With an empty path the key is this name; with a path it is the path joined with
  this name.
\<close>

theorem generateObjectKey_generated_name:
  assumes "length rnd = 16"
  shows "length (UUID_String (uuid_New rnd)) = 36
       \<and> generateObjectKey [] [] ''image/jpeg'' rnd = UUID_String (uuid_New rnd) @ ''.jpg''
       \<and> generateObjectKey [] [] ''image/png'' rnd = UUID_String (uuid_New rnd) @ ''.png''
       \<and> generateObjectKey [] [] ''image/webp'' rnd = UUID_String (uuid_New rnd) @ ''.webp''
       \<and> (contentType \<notin> {''image/jpeg'', ''image/png'', ''image/webp''} \<longrightarrow>
            generateObjectKey [] [] contentType rnd = UUID_String (uuid_New rnd) @ ''.bin'')
       \<and> (path \<noteq> [] \<longrightarrow>
            generateObjectKey path [] contentType rnd
              = filepath_Join [path, generateObjectKey [] [] contentType rnd])"
  using assms
  by (simp add: generateObjectKey_def length_UUID_String length_uuid_New Let_def)

theorem generateObjectKey_generated_name_witness:
  "length example_rnd = 16
   \<and> generateObjectKey [] [] ''image/png'' example_rnd
      = ''3b241a01-f59c-4d0b-ae63-12a1c47e5590.png''
   \<and> generateObjectKey [] [] ''application/pdf'' example_rnd
      = ''3b241a01-f59c-4d0b-ae63-12a1c47e5590.bin''
   \<and> generateObjectKey ''docs'' [] ''application/pdf'' example_rnd
      = ''docs/3b241a01-f59c-4d0b-ae63-12a1c47e5590.bin''"
proof -
  have l: "length example_rnd = 16" by (simp add: example_rnd_def)
  have u: "UUID_String (uuid_New example_rnd) = ''3b241a01-f59c-4d0b-ae63-12a1c47e5590''"
    by (simp add: example_rnd_def UUID_String_def uuid_New_def hextable_def)
  have j: "Clean ''docs/3b241a01-f59c-4d0b-ae63-12a1c47e5590.bin''
      = ''docs/3b241a01-f59c-4d0b-ae63-12a1c47e5590.bin''"
    by (simp add: Clean_def)
  show ?thesis
    using l generateObjectKey_generated_name [OF l, of "''application/pdf''" "''docs''"]
    by (auto simp: u j)
qed

subsection \<open>The object key: joining path and name\<close>

text \<open>The model of \<^verbatim>\<open>Clean\<close> on some of the cases of the standard library's own tests.\<close>

lemma Clean_examples:
  "Clean [] = ''.''"
  "Clean ''abc/def'' = ''abc/def''"
  "Clean ''../../abc'' = ''../../abc''"
  "Clean ''abc//def//ghi'' = ''abc/def/ghi''"
  "Clean ''/./abc/def'' = ''/abc/def''"
  "Clean ''abc/def/../ghi/../jkl'' = ''abc/jkl''"
  "Clean ''abc/def/../../..'' = ''..''"
  "Clean ''/abc/def/../../..'' = ''/''"
  "Clean ''abc/def/../../../ghi/jkl/../../../mno'' = ''../../mno''"
  "Clean ''abc/../../././../def'' = ''../../def''"
  by (simp_all add: Clean_def backtrack.simps)

lemma segments_nonempty: "segments p \<noteq> []"
  by (induction p) (auto split: list.splits)

lemma segments_join: "segments p = e # es \<Longrightarrow> p = e @ seps es"
proof (induction p arbitrary: e es)
  case Nil
  then show ?case by simp
next
  case (Cons c cs)
  obtain a as where seg: "segments cs = a # as"
    using segments_nonempty [of cs] by (cases "segments cs") auto
  have cs: "cs = a @ seps as" using Cons.IH [OF seg] .
  show ?case
  proof (cases "c = CHR ''/''")
    case True
    then have "e = []" and "es = a # as" using Cons.prems seg by auto
    then show ?thesis using True cs by simp
  next
    case False
    then have "e = c # a" and "es = as" using Cons.prems seg by auto
    then show ?thesis using cs by simp
  qed
qed

lemma segments_no_sep: "e \<in> set (segments p) \<Longrightarrow> CHR ''/'' \<notin> set e"
proof (induction p arbitrary: e)
  case Nil
  then show ?case by simp
next
  case (Cons c cs)
  then show ?case
    by (cases "segments cs") (auto simp: segments_nonempty split: if_splits)
qed

lemma elem_end_seps: "elem_end (seps es)"
  by (cases es) auto

lemma clean_loop_sep: "clean_loop rooted (CHR ''/'' # rest) out dd = clean_loop rooted rest out dd"
  by simp

lemma clean_loop_plain:
  assumes "plain_elem e" and "CHR ''/'' \<notin> set e" and "elem_end rest"
  shows "clean_loop rooted (e @ rest) out dd
         = clean_loop rooted rest
             ((if rooted \<and> length out \<noteq> 1 \<or> \<not> rooted \<and> length out \<noteq> 0 then out @ ''/'' else out) @ e) dd"
proof -
  from assms(1) obtain c cs where e: "e = c # cs"
    by (cases e) (auto simp: plain_elem_def)
  have c: "c \<noteq> CHR ''/''" using assms(2) e by auto
  have all: "\<And>x. x \<in> set e \<Longrightarrow> x \<noteq> CHR ''/''" using assms(2) by auto
  have tw: "takeWhile (\<lambda>x. x \<noteq> CHR ''/'') (e @ rest) = e"
    using assms(3) all by (cases rest) simp_all
  have dw: "dropWhile (\<lambda>x. x \<noteq> CHR ''/'') (e @ rest) = rest"
    using assms(3) all by (cases rest) simp_all
  have n1: "\<not> (c = CHR ''.'' \<and> elem_end (cs @ rest))"
    using assms(1,2) e by (cases cs) (auto simp: plain_elem_def)
  have n2: "\<not> (c = CHR ''.'' \<and> cs @ rest \<noteq> [] \<and> hd (cs @ rest) = CHR ''.'' \<and> elem_end (tl (cs @ rest)))"
  proof (cases cs)
    case Nil
    then show ?thesis using assms(1) e by (simp add: plain_elem_def)
  next
    case (Cons d ds)
    then show ?thesis using assms(1,2) e by (cases ds) (auto simp: plain_elem_def)
  qed
  have "clean_loop rooted (c # (cs @ rest)) out dd
      = clean_loop rooted (dropWhile (\<lambda>x. x \<noteq> CHR ''/'') (c # (cs @ rest)))
          ((if rooted \<and> length out \<noteq> 1 \<or> \<not> rooted \<and> length out \<noteq> 0 then out @ ''/'' else out)
             @ takeWhile (\<lambda>x. x \<noteq> CHR ''/'') (c # (cs @ rest))) dd"
    using c n1 n2 by (subst clean_loop.simps) (simp only: if_False)
  then show ?thesis using tw dw e by simp
qed

lemma clean_loop_plain_list:
  assumes "list_all plain_elem es" and "\<forall>e \<in> set es. CHR ''/'' \<notin> set e"
    and "rooted \<longrightarrow> 2 \<le> length out" and "\<not> rooted \<longrightarrow> 1 \<le> length out"
  shows "clean_loop rooted (seps es) out dd = out @ seps es"
  using assms
proof (induction es arbitrary: out)
  case Nil
  then show ?case by simp
next
  case (Cons e es)
  have p: "plain_elem e" and s: "CHR ''/'' \<notin> set e" using Cons.prems by auto
  have ne: "e \<noteq> []" using p by (simp add: plain_elem_def)
  have "clean_loop rooted (seps (e # es)) out dd = clean_loop rooted (e @ seps es) out dd"
    by simp
  also have "\<dots> = clean_loop rooted (seps es) (out @ ''/'' @ e) dd"
    using clean_loop_plain [OF p s elem_end_seps, of rooted es out dd] Cons.prems
    by (auto simp del: clean_loop.simps)
  also have "\<dots> = (out @ ''/'' @ e) @ seps es"
    using Cons.prems by (intro Cons.IH) auto
  finally show ?case by simp
qed


lemma clean_loop_dotdot:
  assumes "elem_end rest" and "length out = dd"
  shows "clean_loop False (''..'' @ rest) out dd
         = clean_loop False rest ((if length out > 0 then out @ ''/'' else out) @ ''..'')
             (length ((if length out > 0 then out @ ''/'' else out) @ ''..''))"
  using assms by (cases rest) auto

lemma clean_loop_dotdot_list:
  assumes "\<forall>d \<in> set ds. d = ''..''" and "list_all plain_elem ps"
    and "\<forall>e \<in> set ps. CHR ''/'' \<notin> set e"
    and "length out = dd" and "out \<noteq> []"
  shows "clean_loop False (seps (ds @ ps)) out dd = out @ seps (ds @ ps)"
  using assms
proof (induction ds arbitrary: out dd)
  case Nil
  then show ?case
    using clean_loop_plain_list [of ps False out dd] by (cases out) auto
next
  case (Cons d ds)
  have d: "d = ''..''" using Cons.prems by simp
  have "clean_loop False (seps ((d # ds) @ ps)) out dd
      = clean_loop False (''..'' @ seps (ds @ ps)) out dd"
    using d by simp
  also have "\<dots> = clean_loop False (seps (ds @ ps)) (out @ ''/'' @ ''..'') (length (out @ ''/'' @ ''..''))"
    using clean_loop_dotdot [OF elem_end_seps, of out dd "ds @ ps"] Cons.prems
    by (auto simp del: clean_loop.simps)
  also have "\<dots> = (out @ ''/'' @ ''..'') @ seps (ds @ ps)"
    using Cons.prems by (intro Cons.IH) auto
  finally show ?case using d by simp
qed

lemma Clean_clean_form:
  assumes "clean_form p"
  shows "Clean p = p"
proof (cases p)
  case Nil
  then show ?thesis using assms by (simp add: clean_form_def)
next
  case (Cons c cs)
  show ?thesis
  proof (cases "c = CHR ''/''")
    case True
    then have pl: "list_all plain_elem (segments cs)"
      using assms Cons by (simp add: clean_form_def)
    obtain e es where seg: "segments cs = e # es"
      using segments_nonempty [of cs] by (cases "segments cs") auto
    have cs: "cs = e @ seps es" using segments_join [OF seg] .
    have ns: "\<forall>x \<in> set (e # es). CHR ''/'' \<notin> set x"
      using segments_no_sep [of _ cs] seg by auto
    have pe: "plain_elem e" and pes: "list_all plain_elem es" using pl seg by auto
    have ne: "e \<noteq> []" using pe by (simp add: plain_elem_def)
    have "clean_loop True cs ''/'' 1 = clean_loop True (seps es) (''/'' @ e) 1"
      using clean_loop_plain [OF pe _ elem_end_seps, of True es "''/''" 1] ns cs
      by (simp del: clean_loop.simps)
    also have "\<dots> = (''/'' @ e) @ seps es"
      using pes ns ne by (intro clean_loop_plain_list) (auto simp: Suc_le_eq)
    finally show ?thesis
      using Cons True cs by (simp add: Clean_def)
  next
    case False
    then have pl: "list_all plain_elem (dropWhile (\<lambda>e. e = ''..'') (segments p))"
      using assms Cons by (simp add: clean_form_def)
    obtain e es where seg: "segments p = e # es"
      using segments_nonempty [of p] by (cases "segments p") auto
    have p: "p = e @ seps es" using segments_join [OF seg] .
    have ns: "\<forall>x \<in> set (e # es). CHR ''/'' \<notin> set x"
      using segments_no_sep [of _ p] seg by auto
    define ds where "ds = takeWhile (\<lambda>e. e = ''..'') es"
    define ps where "ps = dropWhile (\<lambda>e. e = ''..'') es"
    have es: "es = ds @ ps" by (simp add: ds_def ps_def)
    have dd: "\<forall>d \<in> set ds. d = ''..''"
      unfolding ds_def by (auto dest: set_takeWhileD)
    have nps: "\<forall>x \<in> set ps. CHR ''/'' \<notin> set x"
      using ns es by auto
    have hd: "hd p \<noteq> CHR ''/''" using Cons False by simp
    show ?thesis
    proof (cases "e = ''..''")
      case True
      then have pps: "list_all plain_elem ps"
        using pl seg by (simp add: ps_def)
      have "clean_loop False p [] 0 = clean_loop False (''..'' @ seps es) [] 0"
        using p True by simp
      also have "\<dots> = clean_loop False (seps es) ''..'' 2"
        using clean_loop_dotdot [OF elem_end_seps, of "[]" 0 es]
        by (simp del: clean_loop.simps add: numeral_2_eq_2)
      also have "\<dots> = ''..'' @ seps es"
        unfolding es using dd pps nps by (intro clean_loop_dotdot_list) auto
      finally have "clean_loop False p [] 0 = p" using p True by simp
      then show ?thesis using Cons hd by (simp add: Clean_def)
    next
      case False
      then have pall: "list_all plain_elem (e # es)"
        using pl seg by simp
      then have pe: "plain_elem e" and pes: "list_all plain_elem es" by auto
      have ne: "e \<noteq> []" using pe by (simp add: plain_elem_def)
      have "clean_loop False p [] 0 = clean_loop False (e @ seps es) [] 0"
        using p by simp
      also have "\<dots> = clean_loop False (seps es) e 0"
        using clean_loop_plain [OF pe _ elem_end_seps, of False es "[]" 0] ns
        by (simp del: clean_loop.simps)
      also have "\<dots> = e @ seps es"
        using pes ns ne by (intro clean_loop_plain_list) (auto simp: Suc_le_eq)
      finally have "clean_loop False p [] 0 = p" using p by simp
      then show ?thesis using Cons hd ne p by (simp add: Clean_def)
    qed
  qed
qed

text \<open>
  Claim C1, as amended. For every non-empty path, the key is \<^verbatim>\<open>filepath.Join\<close> of path
  and name: the path, one separator and the name, cleaned by \<^verbatim>\<open>filepath.Clean\<close>. The
  name is the file name as it is when that is not empty (and the generated name
  otherwise). When the path, a separator and the name are together in clean form, the
  key is exactly that string: single separators inside path or file name and a leading
  run of \<^verbatim>\<open>..\<close> elements are kept.
\<close>

theorem generateObjectKey_join_clean:
  assumes "path \<noteq> []"
  shows "generateObjectKey path fileName contentType rnd
           = Clean (path @ ''/'' @ generateObjectKey [] fileName contentType rnd)
       \<and> (fileName \<noteq> [] \<longrightarrow> generateObjectKey [] fileName contentType rnd = fileName)
       \<and> (clean_form (path @ ''/'' @ generateObjectKey [] fileName contentType rnd) \<longrightarrow>
            generateObjectKey path fileName contentType rnd
              = path @ ''/'' @ generateObjectKey [] fileName contentType rnd)"
proof -
  have j: "generateObjectKey path fileName contentType rnd
           = Clean (path @ ''/'' @ generateObjectKey [] fileName contentType rnd)"
    using assms by (simp add: generateObjectKey_def Let_def)
  have n: "fileName \<noteq> [] \<longrightarrow> generateObjectKey [] fileName contentType rnd = fileName"
    by (simp add: generateObjectKey_def)
  show ?thesis
    using j n Clean_clean_form by auto
qed

theorem generateObjectKey_join_clean_witness:
  "''../../etc'' \<noteq> [] \<and> ''img/a.jpg'' \<noteq> []
   \<and> generateObjectKey [] ''img/a.jpg'' ''image/jpeg'' [] = ''img/a.jpg''
   \<and> clean_form (''../../etc'' @ ''/'' @ ''img/a.jpg'')
   \<and> generateObjectKey ''../../etc'' ''img/a.jpg'' ''image/jpeg'' [] = ''../../etc/img/a.jpg''"
proof -
  have c: "clean_form (''../../etc'' @ ''/'' @ ''img/a.jpg'')"
    by (simp add: clean_form_def plain_elem_def)
  have n: "generateObjectKey [] ''img/a.jpg'' ''image/jpeg'' [] = ''img/a.jpg''"
    by (simp add: generateObjectKey_def)
  show ?thesis
    using c generateObjectKey_join_clean [of "''../../etc''" "''img/a.jpg''" "''image/jpeg''" "[]"]
    by (auto simp: n)
qed

text \<open>
  Claim C1, as stated, fails: the key is not the plain join. For the path
  \<^verbatim>\<open>uploads//2024\<close> and the file name \<^verbatim>\<open>../x.jpg\<close> the repeated separator is removed and the
  \<^verbatim>\<open>..\<close> element removes \<^verbatim>\<open>2024\<close>: the key is \<^verbatim>\<open>uploads/x.jpg\<close>.
\<close>

theorem generateObjectKey_normalizes:
  "generateObjectKey ''uploads//2024'' ''../x.jpg'' ''image/jpeg'' [] = ''uploads/x.jpg''
   \<and> generateObjectKey ''uploads//2024'' ''../x.jpg'' ''image/jpeg'' []
       \<noteq> ''uploads//2024'' @ ''/'' @ ''../x.jpg''"
  by (simp add: generateObjectKey_def Clean_def backtrack.simps)

subsection \<open>The public-read policy\<close>

lemma json_lex_in_string:
  "CHR 0x22 \<notin> set b \<Longrightarrow> CHR 0x5C \<notin> set b \<Longrightarrow>
   json_lex (Some acc) (b @ rest) = json_lex (Some (acc @ b)) rest"
  by (induction b arbitrary: acc) auto

lemma json_lex_policy_head:
  "json_lex None (policy_head @ rest)
   = [Sym CHR ''{'', Str ''Version'', Sym CHR '':'', Str ''2012-10-17'', Sym CHR '','',
      Str ''Statement'', Sym CHR '':'', Sym CHR ''['', Sym CHR ''{'',
      Str ''Effect'', Sym CHR '':'', Str ''Allow'', Sym CHR '','',
      Str ''Principal'', Sym CHR '':'', Sym CHR ''{'', Str ''AWS'', Sym CHR '':'',
      Sym CHR ''['', Str ''*'', Sym CHR '']'', Sym CHR ''}'', Sym CHR '','',
      Str ''Action'', Sym CHR '':'', Sym CHR ''['', Str ''s3:GetObject'', Sym CHR '']'', Sym CHR '','',
      Str ''Resource'', Sym CHR '':'', Sym CHR ''['']
     @ json_lex (Some ''arn:aws:s3:::'') rest"
  by (simp add: policy_head_def nl_def tabs_def json_space_def eval_nat_numeral)

lemma json_lex_policy_tail:
  "json_lex (Some acc) policy_tail
   = [Str (acc @ ''/*''), Sym CHR '']'', Sym CHR ''}'', Sym CHR '']'', Sym CHR ''}'']"
  by (simp add: policy_tail_def nl_def tabs_def json_space_def eval_nat_numeral)

lemma json_tokens_policy:
  assumes "CHR 0x22 \<notin> set b" and "CHR 0x5C \<notin> set b"
  shows "json_tokens (publicReadPolicy b)
   = [Sym CHR ''{'', Str ''Version'', Sym CHR '':'', Str ''2012-10-17'', Sym CHR '','',
      Str ''Statement'', Sym CHR '':'', Sym CHR ''['', Sym CHR ''{'',
      Str ''Effect'', Sym CHR '':'', Str ''Allow'', Sym CHR '','',
      Str ''Principal'', Sym CHR '':'', Sym CHR ''{'', Str ''AWS'', Sym CHR '':'',
      Sym CHR ''['', Str ''*'', Sym CHR '']'', Sym CHR ''}'', Sym CHR '','',
      Str ''Action'', Sym CHR '':'', Sym CHR ''['', Str ''s3:GetObject'', Sym CHR '']'', Sym CHR '','',
      Str ''Resource'', Sym CHR '':'', Sym CHR ''['', Str (''arn:aws:s3:::'' @ b @ ''/*''),
      Sym CHR '']'', Sym CHR ''}'', Sym CHR '']'', Sym CHR ''}'']"
  unfolding json_tokens_def publicReadPolicy_def json_lex_policy_head
  using json_lex_in_string [OF assms, of "''arn:aws:s3:::''" policy_tail]
  by (simp add: json_lex_policy_tail)

lemma MinIOStorage_CreateBucket_checks_name:
  assumes "\<And>name c. CheckValidBucketName name \<noteq> None
             \<Longrightarrow> \<exists>err c'. BucketExists client name c = (Inl err, c')"
    and "MinIOStorage_CreateBucket client b c = (None, c1)"
  shows "CheckValidBucketName b = None"
proof (rule ccontr)
  assume "CheckValidBucketName b \<noteq> None"
  then obtain err c' where "BucketExists client b c = (Inl err, c')"
    using assms(1) by blast
  then show False
    using assms(2) by (simp add: MinIOStorage_CreateBucket_def)
qed

lemma store_Client_checks_name:
  "CheckValidBucketName name \<noteq> None \<Longrightarrow> \<exists>err c'. BucketExists store_Client name c = (Inl err, c')"
  by (auto simp: store_Client_def)

text \<open>
  Claim C5. The backend is the MinIO backend: its CreateBucket is
  \<^verbatim>\<open>MinIOStorage.CreateBucket\<close> over a client that checks bucket names. For a public
  bucket whose creation succeeds, SetBucketPolicy is applied exactly once, to the state
  after the creation, with the document \<open>publicReadPolicy\<close> of the bucket name, a
  function of the name alone, and the answer is success or its error; the document
  is one statement that allows the principal \<^verbatim>\<open>AWS: *\<close> the action \<^verbatim>\<open>s3:GetObject\<close>, and
  no other action, on \<^verbatim>\<open>arn:aws:s3:::<bucket>/*\<close>. For a private bucket CreateBucket is
  the only call and SetBucketPolicy is not applied.
\<close>

theorem CreateBucket_public_policy:
  assumes "CreateBucket (storage s) = MinIOStorage_CreateBucket client"
    and "\<And>name c. CheckValidBucketName name \<noteq> None
           \<Longrightarrow> \<exists>err c'. BucketExists client name c = (Inl err, c')"
  shows "(IsPublic req \<and> CreateBucket (storage s) (CreateBucketRequest.BucketName req) (backend w) = (None, st1) \<longrightarrow>
      (\<exists>r st2.
          SetBucketPolicy (storage s) (CreateBucketRequest.BucketName req) (publicReadPolicy (CreateBucketRequest.BucketName req)) st1 = (r, st2)
          \<and> Service_CreateBucket s req w
            = ((case r of
                  Some err \<Rightarrow> Inl (Errorf_w ''failed to set bucket policy: '' err)
                | None \<Rightarrow> Inr \<lparr>CreateBucketResponse.Success = True\<rparr>),
               \<lparr>calls = calls w @ [Call_CreateBucket (CreateBucketRequest.BucketName req),
                   Call_SetBucketPolicy (CreateBucketRequest.BucketName req) (publicReadPolicy (CreateBucketRequest.BucketName req))],
                backend = st2\<rparr>))
      \<and> json_tokens (publicReadPolicy (CreateBucketRequest.BucketName req))
        = [Sym CHR ''{'', Str ''Version'', Sym CHR '':'', Str ''2012-10-17'', Sym CHR '','',
           Str ''Statement'', Sym CHR '':'', Sym CHR ''['', Sym CHR ''{'',
           Str ''Effect'', Sym CHR '':'', Str ''Allow'', Sym CHR '','',
           Str ''Principal'', Sym CHR '':'', Sym CHR ''{'', Str ''AWS'', Sym CHR '':'',
           Sym CHR ''['', Str ''*'', Sym CHR '']'', Sym CHR ''}'', Sym CHR '','',
           Str ''Action'', Sym CHR '':'', Sym CHR ''['', Str ''s3:GetObject'', Sym CHR '']'',
           Sym CHR '','',
           Str ''Resource'', Sym CHR '':'', Sym CHR ''['',
           Str (''arn:aws:s3:::'' @ CreateBucketRequest.BucketName req @ ''/*''),
           Sym CHR '']'', Sym CHR ''}'', Sym CHR '']'', Sym CHR ''}'']
      \<and> granted_actions (json_tokens (publicReadPolicy (CreateBucketRequest.BucketName req))) = [''s3:GetObject''])
   \<and> (\<not> IsPublic req \<longrightarrow>
      (\<exists>r st1.
          CreateBucket (storage s) (CreateBucketRequest.BucketName req) (backend w) = (r, st1)
          \<and> Service_CreateBucket s req w
            = ((case r of
                  Some err \<Rightarrow> Inl (Errorf_w ''failed to create bucket: '' err)
                | None \<Rightarrow> Inr \<lparr>CreateBucketResponse.Success = True\<rparr>),
               \<lparr>calls = calls w @ [Call_CreateBucket (CreateBucketRequest.BucketName req)], backend = st1\<rparr>)))"
proof (intro conjI impI)
  assume a: "IsPublic req \<and> CreateBucket (storage s) (CreateBucketRequest.BucketName req) (backend w) = (None, st1)"
  then show "(\<exists>r st2.
          SetBucketPolicy (storage s) (CreateBucketRequest.BucketName req) (publicReadPolicy (CreateBucketRequest.BucketName req)) st1 = (r, st2)
          \<and> Service_CreateBucket s req w
            = ((case r of
                  Some err \<Rightarrow> Inl (Errorf_w ''failed to set bucket policy: '' err)
                | None \<Rightarrow> Inr \<lparr>CreateBucketResponse.Success = True\<rparr>),
               \<lparr>calls = calls w @ [Call_CreateBucket (CreateBucketRequest.BucketName req),
                   Call_SetBucketPolicy (CreateBucketRequest.BucketName req) (publicReadPolicy (CreateBucketRequest.BucketName req))],
                backend = st2\<rparr>))"
    by (auto simp: Service_CreateBucket_def invoke_def Let_def split: prod.splits option.splits)
  from a have "MinIOStorage_CreateBucket client (CreateBucketRequest.BucketName req) (backend w) = (None, st1)"
    using assms(1) by simp
  then have "CheckValidBucketName (CreateBucketRequest.BucketName req) = None"
    using MinIOStorage_CreateBucket_checks_name [OF assms(2)] by blast
  then have p: "CHR 0x22 \<notin> set (CreateBucketRequest.BucketName req) \<and> CHR 0x5C \<notin> set (CreateBucketRequest.BucketName req)"
    by (rule CheckValidBucketName_plain)
  then show "json_tokens (publicReadPolicy (CreateBucketRequest.BucketName req))
        = [Sym CHR ''{'', Str ''Version'', Sym CHR '':'', Str ''2012-10-17'', Sym CHR '','',
           Str ''Statement'', Sym CHR '':'', Sym CHR ''['', Sym CHR ''{'',
           Str ''Effect'', Sym CHR '':'', Str ''Allow'', Sym CHR '','',
           Str ''Principal'', Sym CHR '':'', Sym CHR ''{'', Str ''AWS'', Sym CHR '':'',
           Sym CHR ''['', Str ''*'', Sym CHR '']'', Sym CHR ''}'', Sym CHR '','',
           Str ''Action'', Sym CHR '':'', Sym CHR ''['', Str ''s3:GetObject'', Sym CHR '']'',
           Sym CHR '','',
           Str ''Resource'', Sym CHR '':'', Sym CHR ''['',
           Str (''arn:aws:s3:::'' @ CreateBucketRequest.BucketName req @ ''/*''),
           Sym CHR '']'', Sym CHR ''}'', Sym CHR '']'', Sym CHR ''}'']"
    by (simp add: json_tokens_policy)
  from p show "granted_actions (json_tokens (publicReadPolicy (CreateBucketRequest.BucketName req))) = [''s3:GetObject'']"
    by (simp add: json_tokens_policy)
next
  assume "\<not> IsPublic req"
  then show "(\<exists>r st1.
          CreateBucket (storage s) (CreateBucketRequest.BucketName req) (backend w) = (r, st1)
          \<and> Service_CreateBucket s req w
            = ((case r of
                  Some err \<Rightarrow> Inl (Errorf_w ''failed to create bucket: '' err)
                | None \<Rightarrow> Inr \<lparr>CreateBucketResponse.Success = True\<rparr>),
               \<lparr>calls = calls w @ [Call_CreateBucket (CreateBucketRequest.BucketName req)], backend = st1\<rparr>))"
    by (auto simp: Service_CreateBucket_def invoke_def split: prod.splits option.splits)
qed

theorem CreateBucket_public_policy_witness:
  "CreateBucket (storage (NewService example_Config store_Storage))
     = MinIOStorage_CreateBucket store_Client
   \<and> IsPublic example_public_bucket
   \<and> CreateBucket store_Storage ''mediatest'' empty_store
      = (None, \<lparr>buckets = {''mediatest''}, objects = {}\<rparr>)
   \<and> Service_CreateBucket (NewService example_Config store_Storage) example_public_bucket
        empty_world
      = (Inr \<lparr>CreateBucketResponse.Success = True\<rparr>,
         \<lparr>calls = [Call_CreateBucket ''mediatest'',
             Call_SetBucketPolicy ''mediatest'' (publicReadPolicy ''mediatest'')],
          backend = \<lparr>buckets = {''mediatest''}, objects = {}\<rparr>\<rparr>)
   \<and> granted_actions (json_tokens (publicReadPolicy ''mediatest'')) = [''s3:GetObject'']
   \<and> \<not> IsPublic (example_public_bucket\<lparr>IsPublic := False\<rparr>)
   \<and> Service_CreateBucket (NewService example_Config store_Storage)
        (example_public_bucket\<lparr>IsPublic := False\<rparr>) empty_world
      = (Inr \<lparr>CreateBucketResponse.Success = True\<rparr>,
         \<lparr>calls = [Call_CreateBucket ''mediatest''],
          backend = \<lparr>buckets = {''mediatest''}, objects = {}\<rparr>\<rparr>)"
proof -
  have m: "CreateBucket (storage (NewService example_Config store_Storage))
     = MinIOStorage_CreateBucket store_Client"
    by (simp add: NewService_def store_Storage_def)
  have c: "CreateBucket store_Storage ''mediatest'' empty_store
      = (None, \<lparr>buckets = {''mediatest''}, objects = {}\<rparr>)"
    by (simp add: store_Storage_def empty_store_def MinIOStorage_CreateBucket_store valid_mediatest)
  have p: "SetBucketPolicy store_Storage ''mediatest'' (publicReadPolicy ''mediatest'')
        \<lparr>buckets = {''mediatest''}, objects = {}\<rparr>
      = (None, \<lparr>buckets = {''mediatest''}, objects = {}\<rparr>)"
    by (simp add: store_Storage_def)
  show ?thesis
    using m c p
      CreateBucket_public_policy [OF m store_Client_checks_name, of example_public_bucket
        empty_world "\<lparr>buckets = {''mediatest''}, objects = {}\<rparr>"]
      CreateBucket_public_policy [OF m store_Client_checks_name,
        of "example_public_bucket\<lparr>IsPublic := False\<rparr>" empty_world
        "\<lparr>buckets = {''mediatest''}, objects = {}\<rparr>"]
    by (auto simp: example_public_bucket_def NewService_def empty_world_def)
qed

end
